theory Spec2Isabelle
  imports Main "HOL-Library.Word" "HOL-Library.Sublist"
begin

unbundle bit_operations_syntax

section \<open>MySimpleDB: the storage engine of \<open>lib/mysimpledb.js\<close>\<close>

text \<open>
  The development follows the source file top down: the values the store holds, the
  constructor with its path check, the JSON text functions behind \<open>_clone\<close>,
  the codec (\<open>_encrypt\<close>, \<open>_decrypt\<close>), the load procedure, and the
  promise chain (\<open>writeLock\<close>) on which every public operation is scheduled.

  Strings are byte strings: a JavaScript string is represented by its UTF-8 bytes, so the
  \<open>'utf8'\<close> conversions of the source are the identity here. Numbers are decimal
  numbers \<open>m * 10^e\<close>; of binary64, the overflow to an infinity and the underflow to
  zero are modelled, the rounding to 53 bits is not.
\<close>

subsection \<open>Values and errors\<close>

datatype jsval =
    JUndefined
  | JNull
  | JBool bool
  | JNum int int
  | JNaN
  | JStr string
  | JArr "jsval list"
  | JObj "(string \<times> jsval) list"
  | JFunction nat
  | JBigInt int

text \<open>
  \<open>JNum m e\<close> is the number \<open>m * 10^e\<close>; \<open>JNaN\<close> stands for the three
  non-finite numbers, which JSON serialisation treats alike. \<open>JObj\<close> lists the own
  enumerable properties of a plain object in enumeration order; \<open>JFunction\<close> and
  \<open>JBigInt\<close> are the values JSON serialisation omits, respectively refuses.
\<close>

datatype err =
    RequestError string
  | TypeError string
  | SyntaxError string
  | SystemError string string

text \<open>
  \<open>RequestError\<close> is the class of the source, with its message; \<open>SystemError code msg\<close>
  is an error of the file system (\<open>error.code\<close>, \<open>error.message\<close>). The error kinds of
  the specification are the messages the source throws.
\<close>

definition PathTraversal :: err where
  "PathTraversal = RequestError ''Invalid path: Path traversal attempt detected.''"

definition InvalidFilename :: err where
  "InvalidFilename = RequestError ''Invalid filename: Null bytes are not allowed.''"

definition KeyNotFound :: err where
  "KeyNotFound = RequestError ''Key not found.''"

definition CloneFailed :: err where
  "CloneFailed = RequestError ''Failed to clone database object.''"

definition CorruptedJson :: err where
  "CorruptedJson = RequestError
     ''Failed to parse database content. Data may be corrupted or not valid JSON.''"

subsection \<open>The constructor: \<open>path.resolve\<close>, \<open>startsWith\<close>, \<open>path.basename\<close>\<close>

text \<open>POSIX paths. \<open>split_on c s\<close> is \<open>s.split(c)\<close>.\<close>

fun split_on :: "char \<Rightarrow> string \<Rightarrow> string list" where
  "split_on c [] = [[]]"
| "split_on c (x # xs) =
     (if x = c then [] # split_on c xs
      else (case split_on c xs of [] \<Rightarrow> [[x]] | p # ps \<Rightarrow> (x # p) # ps))"

fun join_path :: "string list \<Rightarrow> string" where
  "join_path [] = []"
| "join_path (s # ss) = CHR ''/'' # s @ join_path ss"

text \<open>
  \<open>normalizeString\<close> of Node's \<open>path\<close> module, for an absolute path: empty segments and
  \<open>.\<close> are dropped, \<open>..\<close> removes the segment before it and is dropped at the root.
  The segments are accumulated in reverse.
\<close>

fun normalize_segments :: "string list \<Rightarrow> string list \<Rightarrow> string list" where
  "normalize_segments acc [] = rev acc"
| "normalize_segments acc (s # ss) =
     (if s = [] \<or> s = ''.'' then normalize_segments acc ss
      else if s = ''..'' then normalize_segments (tl acc) ss
      else normalize_segments (s # acc) ss)"

definition path_segments :: "string \<Rightarrow> string list" where
  "path_segments p = normalize_segments [] (split_on CHR ''/'' p)"

definition path_resolve :: "string \<Rightarrow> string \<Rightarrow> string" where
  "path_resolve cwd p =
     (let full = (if p \<noteq> [] \<and> hd p = CHR ''/'' then p else cwd @ ''/'' @ p);
          segs = path_segments full
      in if segs = [] then ''/'' else join_path segs)"

definition path_basename :: "string \<Rightarrow> string" where
  "path_basename p = (case path_segments p of [] \<Rightarrow> [] | ss \<Rightarrow> last ss)"

definition startsWith :: "string \<Rightarrow> string \<Rightarrow> bool" where
  "startsWith s p = (take (length p) s = p)"

record config =
  dbPath :: string
  encryptionKey :: "string option"

definition Database_constructor :: "string \<Rightarrow> string \<Rightarrow> string option \<Rightarrow> err + config" where
  "Database_constructor cwd dbFileName key =
     (let resolvedPath = path_resolve cwd dbFileName in
      if \<not> startsWith resolvedPath cwd then Inl PathTraversal
      else if CHR 0x00 \<in> set (path_basename resolvedPath) then Inl InvalidFilename
      else Inr \<lparr> dbPath = resolvedPath, encryptionKey = key \<rparr>)"

text \<open>
  The containment the path check is meant to decide, in the words of the specification:
  the resolved path lies within the working directory, that is, the segments of the
  working directory are the first segments of the resolved path.
\<close>

definition contained_in :: "string \<Rightarrow> string \<Rightarrow> bool" where
  "contained_in cwd p = prefix (path_segments cwd) (path_segments p)"

subsection \<open>Plain objects: \<open>key in db\<close>, \<open>db[key] = value\<close>, \<open>delete db[key]\<close>\<close>

text \<open>
  The document is a plain object whose prototype is \<open>Object.prototype\<close>
  (\<open>JSON.parse\<close> and the literal \<open>{}\<close> create such objects). The \<open>in\<close>
  operator of the source follows the prototype chain, so the property names of
  \<open>Object.prototype\<close> are part of the model.
\<close>

definition Object_prototype_names :: "string list" where
  "Object_prototype_names =
     [''constructor'', ''__defineGetter__'', ''__defineSetter__'', ''hasOwnProperty'',
      ''__lookupGetter__'', ''__lookupSetter__'', ''isPrototypeOf'',
      ''propertyIsEnumerable'', ''toString'', ''valueOf'', ''__proto__'',
      ''toLocaleString'']"

definition Array_prototype_names :: "string list" where
  "Array_prototype_names =
     [''length'', ''at'', ''concat'', ''copyWithin'', ''fill'', ''find'', ''findIndex'',
      ''findLast'', ''findLastIndex'', ''lastIndexOf'', ''pop'', ''push'', ''reverse'',
      ''shift'', ''unshift'', ''slice'', ''sort'', ''splice'', ''includes'', ''indexOf'',
      ''join'', ''keys'', ''entries'', ''values'', ''forEach'', ''filter'', ''flat'',
      ''flatMap'', ''map'', ''every'', ''some'', ''reduce'', ''reduceRight'', ''toReversed'',
      ''toSorted'', ''toSpliced'', ''with'']"

definition is_digit :: "char \<Rightarrow> bool" where
  "is_digit c = (48 \<le> (of_char c :: nat) \<and> (of_char c :: nat) \<le> 57)"

definition digit_val :: "char \<Rightarrow> nat" where
  "digit_val c = of_char c - 48"

function digits_of :: "nat \<Rightarrow> string" where
  "digits_of n = (if n < 10 then [char_of (48 + n)] else digits_of (n div 10) @ [char_of (48 + n mod 10)])"
  by pat_completeness auto
termination
  by (relation "measure id") auto

definition nat_of_digits :: "string \<Rightarrow> nat" where
  "nat_of_digits ds = foldl (\<lambda>n c. 10 * n + digit_val c) 0 ds"

text \<open>
  An array index is the canonical decimal spelling of an integer below \<open>2^32 - 1\<close>;
  objects enumerate such keys first, in ascending order, then the other keys in the
  order of their creation.
\<close>

definition array_index :: "string \<Rightarrow> nat option" where
  "array_index k =
     (if k \<noteq> [] \<and> list_all is_digit k \<and> (k = ''0'' \<or> hd k \<noteq> CHR ''0'')
         \<and> nat_of_digits k < 4294967295
      then Some (nat_of_digits k) else None)"

fun insert_index :: "nat \<Rightarrow> string \<Rightarrow> jsval \<Rightarrow> (string \<times> jsval) list \<Rightarrow> (string \<times> jsval) list" where
  "insert_index i k v [] = [(k, v)]"
| "insert_index i k v ((k', v') # ps) =
     (case array_index k' of
        None \<Rightarrow> (k, v) # (k', v') # ps
      | Some j \<Rightarrow> if i < j then (k, v) # (k', v') # ps else (k', v') # insert_index i k v ps)"

definition has_own :: "(string \<times> jsval) list \<Rightarrow> string \<Rightarrow> bool" where
  "has_own ps k = (map_of ps k \<noteq> None)"

fun replace_own :: "(string \<times> jsval) list \<Rightarrow> string \<Rightarrow> jsval \<Rightarrow> (string \<times> jsval) list" where
  "replace_own [] k v = []"
| "replace_own ((k', v') # ps) k v =
     (if k' = k then (k', v) # ps else (k', v') # replace_own ps k v)"

text \<open>
  \<open>CreateDataProperty\<close>, as \<open>JSON.parse\<close> uses it for every member, also for the
  key \<open>__proto__\<close>.
\<close>

definition define_own :: "(string \<times> jsval) list \<Rightarrow> string \<Rightarrow> jsval \<Rightarrow> (string \<times> jsval) list" where
  "define_own ps k v =
     (if has_own ps k then replace_own ps k v
      else (case array_index k of
              None \<Rightarrow> ps @ [(k, v)]
            | Some i \<Rightarrow> insert_index i k v ps))"

text \<open>
  \<open>obj[key] = value\<close> on a plain object: an own property is overwritten; otherwise the
  key \<open>__proto__\<close> reaches the setter of \<open>Object.prototype\<close>, which changes the
  prototype and creates no property; every other key becomes an own property.
\<close>

definition obj_assign :: "(string \<times> jsval) list \<Rightarrow> string \<Rightarrow> jsval \<Rightarrow> (string \<times> jsval) list" where
  "obj_assign ps k v =
     (if has_own ps k then replace_own ps k v
      else if k = ''__proto__'' then ps
      else define_own ps k v)"

definition obj_in :: "(string \<times> jsval) list \<Rightarrow> string \<Rightarrow> bool" where
  "obj_in ps k = (has_own ps k \<or> k \<in> set Object_prototype_names)"

definition obj_delete :: "(string \<times> jsval) list \<Rightarrow> string \<Rightarrow> (string \<times> jsval) list" where
  "obj_delete ps k = filter (\<lambda>p. fst p \<noteq> k) ps"

fun index_of :: "'a \<Rightarrow> 'a list \<Rightarrow> nat" where
  "index_of x [] = 0"
| "index_of x (y # ys) = (if x = y then 0 else Suc (index_of x ys))"

text \<open>
  \<open>obj[key]\<close>: the own property, else what the prototype holds (a built-in function, or
  for \<open>__proto__\<close> the prototype object itself, which has no enumerable property), else
  \<open>undefined\<close>.
\<close>

definition obj_get :: "(string \<times> jsval) list \<Rightarrow> string \<Rightarrow> jsval" where
  "obj_get ps k =
     (case map_of ps k of
        Some v \<Rightarrow> v
      | None \<Rightarrow> if k = ''__proto__'' then JObj []
                else if k \<in> set Object_prototype_names
                then JFunction (index_of k Object_prototype_names)
                else JUndefined)"

text \<open>
  The three operations on whatever value the cache holds. The cache is what
  \<open>JSON.parse\<close> returned for the file, so it can be \<open>null\<close>, a primitive or an array.
  On \<open>null\<close> every property access throws; on a primitive \<open>in\<close> throws, and so
  does an assignment (the body of a class is strict code), except to \<open>__proto__\<close>,
  whose setter ignores a primitive. On an array the model covers the indices; a named
  property of an array does not survive \<open>_clone\<close>, so assigning one leaves the array
  as it is, and \<open>delete\<close> throws on \<open>length\<close>, which cannot be deleted. Assigning
  to \<open>length\<close> of an array is not modelled, and neither are the properties of a
  function, which only a direct call of \<open>_writeDb\<close> can make the document. The
  messages of these TypeErrors are abridged: they do not quote the key and the value.
\<close>

definition js_in :: "string \<Rightarrow> jsval \<Rightarrow> err + bool" where
  "js_in k d =
     (case d of
        JObj ps \<Rightarrow> Inr (obj_in ps k)
      | JArr xs \<Rightarrow> Inr ((case array_index k of Some i \<Rightarrow> i < length xs | None \<Rightarrow> False)
                        \<or> k \<in> set Array_prototype_names \<or> k \<in> set Object_prototype_names)
      | _ \<Rightarrow> Inl (TypeError ''Cannot use the in operator on a value that is not an object''))"

definition js_assign :: "jsval \<Rightarrow> string \<Rightarrow> jsval \<Rightarrow> err + jsval" where
  "js_assign d k v =
     (case d of
        JObj ps \<Rightarrow> Inr (JObj (obj_assign ps k v))
      | JArr xs \<Rightarrow>
          (case array_index k of
             Some i \<Rightarrow> Inr (JArr (if i < length xs then xs[i := v]
                                  else xs @ replicate (i - length xs) JUndefined @ [v]))
           | None \<Rightarrow> Inr (JArr xs))
      | JNull \<Rightarrow> Inl (TypeError ''Cannot set properties of null'')
      | JUndefined \<Rightarrow> Inl (TypeError ''Cannot set properties of undefined'')
      | JFunction f \<Rightarrow> Inr d
      | _ \<Rightarrow>
          if k = ''__proto__'' then Inr d
          else Inl (TypeError ''Cannot create property on a primitive value''))"

definition js_delete :: "jsval \<Rightarrow> string \<Rightarrow> err + jsval" where
  "js_delete d k =
     (case d of
        JObj ps \<Rightarrow> Inr (JObj (obj_delete ps k))
      | JArr xs \<Rightarrow>
          (case array_index k of
             Some i \<Rightarrow> Inr (JArr (if i < length xs then xs[i := JUndefined] else xs))
           | None \<Rightarrow>
               if k = ''length'' then Inl (TypeError ''Cannot delete property length of an array'')
               else Inr (JArr xs))
      | _ \<Rightarrow> Inr d)"

definition js_get :: "jsval \<Rightarrow> string \<Rightarrow> jsval" where
  "js_get d k =
     (case d of
        JObj ps \<Rightarrow> obj_get ps k
      | JArr xs \<Rightarrow> (case array_index k of
                      Some i \<Rightarrow> if i < length xs then xs ! i else JUndefined
                    | None \<Rightarrow> if k = ''length'' then JNum (int (length xs)) 0 else JUndefined)
      | _ \<Rightarrow> JUndefined)"

text \<open>
  The length of a string in UTF-16 code units, from its UTF-8 bytes: one unit for each
  character, two for a character of four bytes.
\<close>

definition utf16_length :: "string \<Rightarrow> nat" where
  "utf16_length s =
     length (filter (\<lambda>c. (of_char c :: nat) < 0x80 \<or> 0xC0 \<le> (of_char c :: nat)) s)
     + length (filter (\<lambda>c. 0xF0 \<le> (of_char c :: nat)) s)"

definition Object_keys :: "jsval \<Rightarrow> err + string list" where
  "Object_keys d =
     (case d of
        JObj ps \<Rightarrow> Inr (map fst ps)
      | JArr xs \<Rightarrow> Inr (map (\<lambda>i. digits_of i) [0 ..< length xs])
      | JNull \<Rightarrow> Inl (TypeError ''Cannot convert undefined or null to object'')
      | JUndefined \<Rightarrow> Inl (TypeError ''Cannot convert undefined or null to object'')
      | JStr s \<Rightarrow> Inr (map (\<lambda>i. digits_of i) [0 ..< utf16_length s])
      | _ \<Rightarrow> Inr [])"

subsection \<open>\<open>JSON.stringify\<close>\<close>

text \<open>\<open>Number::toString\<close> for \<open>m * 10^e\<close>, with \<open>m\<close> free of trailing zeros.\<close>

function strip_zeros :: "int \<Rightarrow> int \<Rightarrow> int \<times> int" where
  "strip_zeros m e =
     (if m = 0 then (0, 0)
      else if m mod 10 = 0 then strip_zeros (m div 10) (e + 1)
      else (m, e))"
  by pat_completeness auto
termination
  by (relation "measure (\<lambda>(m, e). nat \<bar>m\<bar>)") auto

definition number_to_string :: "int \<Rightarrow> int \<Rightarrow> string" where
  "number_to_string m0 e0 =
     (let (m, e) = strip_zeros m0 e0;
          sgn = (if m < 0 then ''-'' else []);
          ds = digits_of (nat \<bar>m\<bar>);
          k = int (length ds);
          n = k + e
      in if m = 0 then ''0''
         else if k \<le> n \<and> n \<le> 21 then sgn @ ds @ replicate (nat (n - k)) CHR ''0''
         else if 0 < n \<and> n \<le> 21 then sgn @ take (nat n) ds @ ''.'' @ drop (nat n) ds
         else if - 6 < n \<and> n \<le> 0 then sgn @ ''0.'' @ replicate (nat (- n)) CHR ''0'' @ ds
         else sgn @ [hd ds] @ (if k = 1 then [] else ''.'' @ tl ds) @ ''e''
              @ (if 0 \<le> n - 1 then ''+'' else ''-'') @ digits_of (nat \<bar>n - 1\<bar>))"

definition hex_digit :: "nat \<Rightarrow> char" where
  "hex_digit n = ''0123456789abcdef'' ! (n mod 16)"

text \<open>\<open>QuoteJSONString\<close>.\<close>

definition quote_char :: "char \<Rightarrow> string" where
  "quote_char c =
     (if c = CHR 0x22 then [CHR 0x5C, CHR 0x22]
      else if c = CHR 0x5C then [CHR 0x5C, CHR 0x5C]
      else if c = CHR 0x08 then [CHR 0x5C, CHR ''b'']
      else if c = CHR 0x0C then [CHR 0x5C, CHR ''f'']
      else if c = CHR 0x0A then [CHR 0x5C, CHR ''n'']
      else if c = CHR 0x0D then [CHR 0x5C, CHR ''r'']
      else if c = CHR 0x09 then [CHR 0x5C, CHR ''t'']
      else if (of_char c :: nat) < 32
      then [CHR 0x5C, CHR ''u'', CHR ''0'', CHR ''0'', hex_digit (of_char c div 16), hex_digit (of_char c)]
      else [c])"

definition quote_string :: "string \<Rightarrow> string" where
  "quote_string s = [CHR 0x22] @ concat (map quote_char s) @ [CHR 0x22]"

fun join_with :: "string \<Rightarrow> string list \<Rightarrow> string" where
  "join_with sep [] = []"
| "join_with sep [s] = s"
| "join_with sep (s # t # ss) = s @ sep @ join_with sep (t # ss)"

text \<open>A value that a property or the top level omits (\<open>undefined\<close>, a function).\<close>

fun omitted :: "jsval \<Rightarrow> bool" where
  "omitted JUndefined = True"
| "omitted (JFunction f) = True"
| "omitted v = False"

text \<open>Serialising a BigInt throws a TypeError, wherever it stands.\<close>

fun has_bigint :: "jsval \<Rightarrow> bool"
and has_bigint_list :: "jsval list \<Rightarrow> bool"
and has_bigint_members :: "(string \<times> jsval) list \<Rightarrow> bool" where
  "has_bigint (JBigInt n) = True"
| "has_bigint (JArr xs) = has_bigint_list xs"
| "has_bigint (JObj ps) = has_bigint_members ps"
| "has_bigint JUndefined = False"
| "has_bigint JNull = False"
| "has_bigint (JBool b) = False"
| "has_bigint (JNum m e) = False"
| "has_bigint JNaN = False"
| "has_bigint (JStr s) = False"
| "has_bigint (JFunction f) = False"
| "has_bigint_list [] = False"
| "has_bigint_list (x # xs) = (has_bigint x \<or> has_bigint_list xs)"
| "has_bigint_members [] = False"
| "has_bigint_members (p # ps) = (has_bigint (snd p) \<or> has_bigint_members ps)"

text \<open>
  \<open>SerializeJSONProperty\<close> with the gap \<open>gap\<close> (empty, or two spaces for
  \<open>JSON.stringify(data, null, 2)\<close>) at the indentation \<open>ind\<close>. In an array an
  omitted value is written \<open>null\<close>; in an object its member is left out.
\<close>

fun serialize :: "string \<Rightarrow> string \<Rightarrow> jsval \<Rightarrow> string"
and serialize_elems :: "string \<Rightarrow> string \<Rightarrow> jsval list \<Rightarrow> string list"
and serialize_members :: "string \<Rightarrow> string \<Rightarrow> (string \<times> jsval) list \<Rightarrow> string list" where
  "serialize gap ind JUndefined = ''null''"
| "serialize gap ind (JFunction f) = ''null''"
| "serialize gap ind (JBigInt n) = ''null''"
| "serialize gap ind JNull = ''null''"
| "serialize gap ind JNaN = ''null''"
| "serialize gap ind (JBool b) = (if b then ''true'' else ''false'')"
| "serialize gap ind (JNum m e) = number_to_string m e"
| "serialize gap ind (JStr s) = quote_string s"
| "serialize gap ind (JArr xs) =
     (let items = serialize_elems gap (ind @ gap) xs in
      if items = [] then ''[]''
      else if gap = [] then ''['' @ join_with '','' items @ '']''
      else ''['' @ [CHR 0x0A] @ ind @ gap @ join_with ('','' @ [CHR 0x0A] @ ind @ gap) items
           @ [CHR 0x0A] @ ind @ '']'')"
| "serialize gap ind (JObj ps) =
     (let items = serialize_members gap (ind @ gap) ps in
      if items = [] then ''{}''
      else if gap = [] then ''{'' @ join_with '','' items @ ''}''
      else ''{'' @ [CHR 0x0A] @ ind @ gap @ join_with ('','' @ [CHR 0x0A] @ ind @ gap) items
           @ [CHR 0x0A] @ ind @ ''}'')"
| "serialize_elems gap ind [] = []"
| "serialize_elems gap ind (x # xs) = serialize gap ind x # serialize_elems gap ind xs"
| "serialize_members gap ind [] = []"
| "serialize_members gap ind (p # ps) =
     (if omitted (snd p) then serialize_members gap ind ps
      else (quote_string (fst p) @ (if gap = [] then '':'' else '': '') @ serialize gap ind (snd p))
           # serialize_members gap ind ps)"

text \<open>
  \<open>JSON.stringify(v, null, gap)\<close>: a TypeError, \<open>undefined\<close> (\<open>None\<close>) or the text.
\<close>

definition JSON_stringify :: "string \<Rightarrow> jsval \<Rightarrow> err + string option" where
  "JSON_stringify gap v =
     (if has_bigint v then Inl (TypeError ''Do not know how to serialize a BigInt'')
      else if omitted v then Inr None
      else Inr (Some (serialize gap [] v)))"

subsection \<open>\<open>JSON.parse\<close>\<close>

definition is_json_ws :: "char \<Rightarrow> bool" where
  "is_json_ws c = (c = CHR 0x20 \<or> c = CHR 0x09 \<or> c = CHR 0x0A \<or> c = CHR 0x0D)"

definition skip_ws :: "string \<Rightarrow> string" where
  "skip_ws s = dropWhile is_json_ws s"

definition hex_val :: "char \<Rightarrow> nat option" where
  "hex_val c =
     (let n = (of_char c :: nat) in
      if 48 \<le> n \<and> n \<le> 57 then Some (n - 48)
      else if 97 \<le> n \<and> n \<le> 102 then Some (n - 87)
      else if 65 \<le> n \<and> n \<le> 70 then Some (n - 55)
      else None)"

text \<open>
  The characters of a string literal: a byte of the text, or the UTF-16 code unit of a
  \<open>\uXXXX\<close> escape. Code units are turned into UTF-8 at the end, a surrogate pair into
  one four-byte sequence.
\<close>

datatype str_item = Byte char | Unit nat

definition utf8_encode :: "nat \<Rightarrow> string" where
  "utf8_encode cp =
     (if cp < 128 then [char_of cp]
      else if cp < 2048 then [char_of (192 + cp div 64), char_of (128 + cp mod 64)]
      else if cp < 65536
      then [char_of (224 + cp div 4096), char_of (128 + cp div 64 mod 64), char_of (128 + cp mod 64)]
      else [char_of (240 + cp div 262144), char_of (128 + cp div 4096 mod 64),
            char_of (128 + cp div 64 mod 64), char_of (128 + cp mod 64)])"

fun utf8_of_items :: "str_item list \<Rightarrow> string" where
  "utf8_of_items [] = []"
| "utf8_of_items (Byte c # r) = c # utf8_of_items r"
| "utf8_of_items (Unit hi # Unit lo # r) =
     (if 55296 \<le> hi \<and> hi < 56320 \<and> 56320 \<le> lo \<and> lo < 57344
      then utf8_encode (65536 + (hi - 55296) * 1024 + (lo - 56320)) @ utf8_of_items r
      else utf8_encode hi @ utf8_of_items (Unit lo # r))"
| "utf8_of_items (Unit u # r) = utf8_encode u @ utf8_of_items r"

text \<open>
  The body of a string literal, after the opening quote: the items up to the closing
  quote and the rest of the text. A control character and an unknown escape are errors.
\<close>

fun parse_string_items :: "string \<Rightarrow> (str_item list \<times> string) option" where
  "parse_string_items [] = None"
| "parse_string_items (c # r) =
     (if c = CHR 0x22 then Some ([], r)
      else if (of_char c :: nat) < 32 then None
      else if c \<noteq> CHR 0x5C
      then map_option (\<lambda>(is, r'). (Byte c # is, r')) (parse_string_items r)
      else (case r of
              [] \<Rightarrow> None
            | x # r1 \<Rightarrow>
                if x = CHR ''u'' then
                  (case r1 of
                     h1 # h2 # h3 # h4 # r2 \<Rightarrow>
                       (case (hex_val h1, hex_val h2, hex_val h3, hex_val h4) of
                          (Some a, Some b, Some c', Some d) \<Rightarrow>
                            map_option (\<lambda>(is, r'). (Unit (4096 * a + 256 * b + 16 * c' + d) # is, r'))
                              (parse_string_items r2)
                        | _ \<Rightarrow> None)
                   | _ \<Rightarrow> None)
                else
                  (case (if x = CHR 0x22 then Some (CHR 0x22)
                         else if x = CHR 0x5C then Some (CHR 0x5C)
                         else if x = CHR ''/'' then Some (CHR ''/'')
                         else if x = CHR ''b'' then Some (CHR 0x08)
                         else if x = CHR ''f'' then Some (CHR 0x0C)
                         else if x = CHR ''n'' then Some (CHR 0x0A)
                         else if x = CHR ''r'' then Some (CHR 0x0D)
                         else if x = CHR ''t'' then Some (CHR 0x09)
                         else None) of
                     None \<Rightarrow> None
                   | Some e \<Rightarrow> map_option (\<lambda>(is, r'). (Byte e # is, r')) (parse_string_items r1))))"

definition parse_string :: "string \<Rightarrow> (string \<times> string) option" where
  "parse_string s = map_option (\<lambda>(is, r). (utf8_of_items is, r)) (parse_string_items s)"

text \<open>
  A number literal: \<open>-? (0 | [1-9][0-9]*) (. [0-9]+)? ([eE] [+-]? [0-9]+)?\<close>. A literal
  of magnitude \<open>2^1024 - 2^970\<close> or more rounds to an infinity, one of magnitude
  \<open>2^-1075\<close> or less to zero.
\<close>

definition underflows :: "int \<Rightarrow> int \<Rightarrow> bool" where
  "underflows m e = (e < 0 \<and> \<bar>m\<bar> * 2 ^ 1075 \<le> 10 ^ nat (- e))"

definition overflows :: "int \<Rightarrow> int \<Rightarrow> bool" where
  "overflows m e =
     (if 0 \<le> e then 2 ^ 1024 - 2 ^ 970 \<le> \<bar>m\<bar> * 10 ^ nat e
      else (2 ^ 1024 - 2 ^ 970) * 10 ^ nat (- e) \<le> \<bar>m\<bar>)"

definition parse_number :: "string \<Rightarrow> (jsval \<times> string) option" where
  "parse_number s =
     (let neg = (s \<noteq> [] \<and> hd s = CHR ''-'');
          s1 = (if neg then tl s else s);
          ip = takeWhile is_digit s1;
          s2 = dropWhile is_digit s1;
          has_frac = (s2 \<noteq> [] \<and> hd s2 = CHR ''.'');
          fp = (if has_frac then takeWhile is_digit (tl s2) else []);
          s3 = (if has_frac then dropWhile is_digit (tl s2) else s2);
          has_exp = (s3 \<noteq> [] \<and> (hd s3 = CHR ''e'' \<or> hd s3 = CHR ''E''));
          s4 = (if has_exp then tl s3 else s3);
          eneg = (has_exp \<and> s4 \<noteq> [] \<and> hd s4 = CHR ''-'');
          s5 = (if has_exp \<and> s4 \<noteq> [] \<and> (hd s4 = CHR ''-'' \<or> hd s4 = CHR ''+'') then tl s4 else s4);
          ep = (if has_exp then takeWhile is_digit s5 else []);
          s6 = (if has_exp then dropWhile is_digit s5 else s5)
      in if ip = [] \<or> (length ip > 1 \<and> hd ip = CHR ''0'') \<or> (has_frac \<and> fp = [])
            \<or> (has_exp \<and> ep = [])
         then None
         else let m = int (nat_of_digits (ip @ fp));
                  e = (if eneg then - int (nat_of_digits ep) else int (nat_of_digits ep))
                      - int (length fp);
                  (m', e') = strip_zeros (if neg then - m else m) e
              in Some (if overflows m' e' then JNaN
                       else if underflows m' e' then JNum 0 0
                       else JNum m' e', s6))"

text \<open>
  The values. The first argument bounds the number of nested calls; \<open>JSON_parse\<close>
  starts with more than any text of that length can use (each call of
  \<open>parse_value\<close> on the way down consumes a character of its own).
\<close>

fun parse_value :: "nat \<Rightarrow> string \<Rightarrow> (jsval \<times> string) option"
and parse_elems :: "nat \<Rightarrow> jsval list \<Rightarrow> string \<Rightarrow> (jsval list \<times> string) option"
and parse_members :: "nat \<Rightarrow> (string \<times> jsval) list \<Rightarrow> string \<Rightarrow> ((string \<times> jsval) list \<times> string) option" where
  "parse_value 0 s = None"
| "parse_value (Suc n) s =
     (case skip_ws s of
        [] \<Rightarrow> None
      | c # r \<Rightarrow>
          if c = CHR ''{'' then
            (case skip_ws r of
               [] \<Rightarrow> None
             | c' # r' \<Rightarrow> if c' = CHR ''}'' then Some (JObj [], r')
                          else map_option (\<lambda>(ps, t). (JObj ps, t)) (parse_members n [] r))
          else if c = CHR ''['' then
            (case skip_ws r of
               [] \<Rightarrow> None
             | c' # r' \<Rightarrow> if c' = CHR '']'' then Some (JArr [], r')
                          else map_option (\<lambda>(xs, t). (JArr xs, t)) (parse_elems n [] r))
          else if c = CHR 0x22 then map_option (\<lambda>(str, t). (JStr str, t)) (parse_string r)
          else if take 4 (c # r) = ''true'' then Some (JBool True, drop 4 (c # r))
          else if take 5 (c # r) = ''false'' then Some (JBool False, drop 5 (c # r))
          else if take 4 (c # r) = ''null'' then Some (JNull, drop 4 (c # r))
          else parse_number (c # r))"
| "parse_elems 0 acc s = None"
| "parse_elems (Suc n) acc s =
     (case parse_value n s of
        None \<Rightarrow> None
      | Some (v, r) \<Rightarrow>
          (case skip_ws r of
             [] \<Rightarrow> None
           | c # r' \<Rightarrow> if c = CHR '','' then parse_elems n (acc @ [v]) r'
                        else if c = CHR '']'' then Some (acc @ [v], r')
                        else None))"
| "parse_members 0 acc s = None"
| "parse_members (Suc n) acc s =
     (case skip_ws s of
        [] \<Rightarrow> None
      | q # r0 \<Rightarrow>
          if q \<noteq> CHR 0x22 then None
          else (case parse_string r0 of
                  None \<Rightarrow> None
                | Some (k, r1) \<Rightarrow>
                    (case skip_ws r1 of
                       [] \<Rightarrow> None
                     | c # r2 \<Rightarrow>
                         if c \<noteq> CHR '':'' then None
                         else (case parse_value n r2 of
                                 None \<Rightarrow> None
                               | Some (v, r3) \<Rightarrow>
                                   (case skip_ws r3 of
                                      [] \<Rightarrow> None
                                    | d # r4 \<Rightarrow>
                                        if d = CHR '','' then parse_members n (define_own acc k v) r4
                                        else if d = CHR ''}'' then Some (define_own acc k v, r4)
                                        else None)))))"

text \<open>\<open>JSON.parse(text)\<close>: the value, or \<open>None\<close> for a SyntaxError.\<close>

definition JSON_parse :: "string \<Rightarrow> jsval option" where
  "JSON_parse s =
     (case parse_value (2 * length s + 2) s of
        None \<Rightarrow> None
      | Some (v, r) \<Rightarrow> if skip_ws r = [] then Some v else None)"

subsection \<open>\<open>_clone\<close>\<close>

text \<open>
  \<open>null\<close> and every value that is not an object are returned as they are; an object
  goes through \<open>JSON.parse(JSON.stringify(obj))\<close>, and whatever that throws becomes
  the RequestError of the \<open>catch\<close>.
\<close>

definition is_object :: "jsval \<Rightarrow> bool" where
  "is_object v = (case v of JArr xs \<Rightarrow> True | JObj ps \<Rightarrow> True | _ \<Rightarrow> False)"

definition clone :: "jsval \<Rightarrow> err + jsval" where
  "clone obj =
     (if obj = JNull \<or> \<not> is_object obj then Inr obj
      else (case JSON_stringify [] obj of
              Inl e \<Rightarrow> Inl CloneFailed
            | Inr None \<Rightarrow> Inl CloneFailed
            | Inr (Some text) \<Rightarrow>
                (case JSON_parse text of
                   None \<Rightarrow> Inl CloneFailed
                 | Some v \<Rightarrow> Inr v)))"

subsection \<open>Buffers: hexadecimal and base64\<close>

type_synonym byte = "8 word"

text \<open>
  \<open>Buffer.from(s, 'hex')\<close> decodes pairs of hexadecimal digits and stops at the first
  pair that is not one; a last single character is dropped.
\<close>

fun hex_decode :: "string \<Rightarrow> byte list" where
  "hex_decode (a # b # r) =
     (case (hex_val a, hex_val b) of
        (Some x, Some y) \<Rightarrow> of_nat (16 * x + y) # hex_decode r
      | _ \<Rightarrow> [])"
| "hex_decode r = []"

text \<open>
  The bytes of a text and back (\<open>'utf8'\<close>; see the note on strings above). Bytes that
  are not well-formed UTF-8, which the source replaces by U+FFFD when it decodes, are kept
  as they are.
\<close>

definition utf8_bytes :: "string \<Rightarrow> byte list" where
  "utf8_bytes s = map (\<lambda>c. of_nat (of_char c)) s"

definition utf8_string :: "byte list \<Rightarrow> string" where
  "utf8_string bs = map (\<lambda>b. char_of (unat b)) bs"

text \<open>The alphabet: \<open>A\<close> to \<open>Z\<close>, \<open>a\<close> to \<open>z\<close>, \<open>0\<close> to \<open>9\<close>, \<open>+\<close> and \<open>/\<close>.\<close>

definition base64_char :: "nat \<Rightarrow> char" where
  "base64_char i =
     (let j = i mod 64 in
      if j < 26 then char_of (65 + j)
      else if j < 52 then char_of (71 + j)
      else if j < 62 then char_of (j - 4)
      else if j = 62 then CHR ''+''
      else CHR ''/'')"

text \<open>\<open>buf.toString('base64')\<close>: three bytes give four characters, the rest is padded.\<close>

fun base64_encode :: "byte list \<Rightarrow> string" where
  "base64_encode (a # b # c # r) =
     [base64_char (unat a div 4), base64_char (unat a mod 4 * 16 + unat b div 16),
      base64_char (unat b mod 16 * 4 + unat c div 64), base64_char (unat c mod 64)]
     @ base64_encode r"
| "base64_encode [a, b] =
     [base64_char (unat a div 4), base64_char (unat a mod 4 * 16 + unat b div 16),
      base64_char (unat b mod 16 * 4), CHR ''='']"
| "base64_encode [a] =
     [base64_char (unat a div 4), base64_char (unat a mod 4 * 16), CHR ''='', CHR ''='']"
| "base64_encode [] = []"

text \<open>
  Decoding, as \<open>Buffer.from(s, 'base64')\<close> and the \<open>'base64'\<close> input encoding of
  \<open>decipher.update\<close> do it: the URL-safe characters count as well, a character outside
  the alphabets (white space, for one) is skipped, and \<open>=\<close> ends the data. A last
  group of two or three characters gives one or two bytes; a single character gives none.
\<close>

definition unbase64 :: "char \<Rightarrow> nat option" where
  "unbase64 c =
     (let n = (of_char c :: nat) in
      if 65 \<le> n \<and> n \<le> 90 then Some (n - 65)
      else if 97 \<le> n \<and> n \<le> 122 then Some (n - 71)
      else if 48 \<le> n \<and> n \<le> 57 then Some (n + 4)
      else if c = CHR ''+'' \<or> c = CHR ''-'' then Some 62
      else if c = CHR ''/'' \<or> c = CHR ''_'' then Some 63
      else None)"

fun sextets_to_bytes :: "nat list \<Rightarrow> byte list" where
  "sextets_to_bytes (a # b # c # d # r) =
     [of_nat (a * 4 + b div 16), of_nat (b mod 16 * 16 + c div 4), of_nat (c mod 4 * 64 + d)]
     @ sextets_to_bytes r"
| "sextets_to_bytes [a, b, c] = [of_nat (a * 4 + b div 16), of_nat (b mod 16 * 16 + c div 4)]"
| "sextets_to_bytes [a, b] = [of_nat (a * 4 + b div 16)]"
| "sextets_to_bytes r = []"

definition base64_decode :: "string \<Rightarrow> byte list" where
  "base64_decode s =
     sextets_to_bytes (List.map_filter unbase64 (takeWhile (\<lambda>c. c \<noteq> CHR ''='') s))"

text \<open>The six-bit values of a base64 text, up to its padding.\<close>

definition sextets :: "string \<Rightarrow> nat list" where
  "sextets s = List.map_filter unbase64 (takeWhile (\<lambda>c. c \<noteq> CHR ''='') s)"

subsection \<open>AES-256 in Galois/Counter Mode (\<open>crypto.createCipheriv('aes-256-gcm', ...)\<close>)\<close>

text \<open>
  The cipher of the \<open>crypto\<close> module is not code of the repository; it is written out
  here from its standards (FIPS 197, NIST SP 800-38D) so that the envelope is a concrete
  function of key, nonce and text.
\<close>

text \<open>The substitution table, a row for each high half of the byte.\<close>

definition sbox_table :: "byte list list" where
  "sbox_table =
     [[0x63, 0x7c, 0x77, 0x7b, 0xf2, 0x6b, 0x6f, 0xc5, 0x30, 0x01, 0x67, 0x2b, 0xfe, 0xd7, 0xab, 0x76],
      [0xca, 0x82, 0xc9, 0x7d, 0xfa, 0x59, 0x47, 0xf0, 0xad, 0xd4, 0xa2, 0xaf, 0x9c, 0xa4, 0x72, 0xc0],
      [0xb7, 0xfd, 0x93, 0x26, 0x36, 0x3f, 0xf7, 0xcc, 0x34, 0xa5, 0xe5, 0xf1, 0x71, 0xd8, 0x31, 0x15],
      [0x04, 0xc7, 0x23, 0xc3, 0x18, 0x96, 0x05, 0x9a, 0x07, 0x12, 0x80, 0xe2, 0xeb, 0x27, 0xb2, 0x75],
      [0x09, 0x83, 0x2c, 0x1a, 0x1b, 0x6e, 0x5a, 0xa0, 0x52, 0x3b, 0xd6, 0xb3, 0x29, 0xe3, 0x2f, 0x84],
      [0x53, 0xd1, 0x00, 0xed, 0x20, 0xfc, 0xb1, 0x5b, 0x6a, 0xcb, 0xbe, 0x39, 0x4a, 0x4c, 0x58, 0xcf],
      [0xd0, 0xef, 0xaa, 0xfb, 0x43, 0x4d, 0x33, 0x85, 0x45, 0xf9, 0x02, 0x7f, 0x50, 0x3c, 0x9f, 0xa8],
      [0x51, 0xa3, 0x40, 0x8f, 0x92, 0x9d, 0x38, 0xf5, 0xbc, 0xb6, 0xda, 0x21, 0x10, 0xff, 0xf3, 0xd2],
      [0xcd, 0x0c, 0x13, 0xec, 0x5f, 0x97, 0x44, 0x17, 0xc4, 0xa7, 0x7e, 0x3d, 0x64, 0x5d, 0x19, 0x73],
      [0x60, 0x81, 0x4f, 0xdc, 0x22, 0x2a, 0x90, 0x88, 0x46, 0xee, 0xb8, 0x14, 0xde, 0x5e, 0x0b, 0xdb],
      [0xe0, 0x32, 0x3a, 0x0a, 0x49, 0x06, 0x24, 0x5c, 0xc2, 0xd3, 0xac, 0x62, 0x91, 0x95, 0xe4, 0x79],
      [0xe7, 0xc8, 0x37, 0x6d, 0x8d, 0xd5, 0x4e, 0xa9, 0x6c, 0x56, 0xf4, 0xea, 0x65, 0x7a, 0xae, 0x08],
      [0xba, 0x78, 0x25, 0x2e, 0x1c, 0xa6, 0xb4, 0xc6, 0xe8, 0xdd, 0x74, 0x1f, 0x4b, 0xbd, 0x8b, 0x8a],
      [0x70, 0x3e, 0xb5, 0x66, 0x48, 0x03, 0xf6, 0x0e, 0x61, 0x35, 0x57, 0xb9, 0x86, 0xc1, 0x1d, 0x9e],
      [0xe1, 0xf8, 0x98, 0x11, 0x69, 0xd9, 0x8e, 0x94, 0x9b, 0x1e, 0x87, 0xe9, 0xce, 0x55, 0x28, 0xdf],
      [0x8c, 0xa1, 0x89, 0x0d, 0xbf, 0xe6, 0x42, 0x68, 0x41, 0x99, 0x2d, 0x0f, 0xb0, 0x54, 0xbb, 0x16]]"

definition sbox :: "byte \<Rightarrow> byte" where
  "sbox b = sbox_table ! (unat b div 16) ! (unat b mod 16)"

definition xtime :: "byte \<Rightarrow> byte" where
  "xtime b = (if bit b 7 then push_bit 1 b XOR 0x1b else push_bit 1 b)"

definition xor_bytes :: "byte list \<Rightarrow> byte list \<Rightarrow> byte list" where
  "xor_bytes xs ys = map (\<lambda>(x, y). x XOR y) (zip xs ys)"

fun chunks :: "nat \<Rightarrow> nat \<Rightarrow> 'a list \<Rightarrow> 'a list list" where
  "chunks 0 n xs = []"
| "chunks (Suc k) n xs = (if xs = [] then [] else take n xs # chunks k n (drop n xs))"

text \<open>
  The key schedule for a 256-bit key: sixty words \<open>w\<close>, four to a round key.
\<close>

definition next_word :: "byte list list \<times> byte \<Rightarrow> nat \<Rightarrow> byte list list \<times> byte" where
  "next_word st i =
     (let w = fst st; rcon = snd st; t = w ! (i - 1);
          t' = (if i mod 8 = 0
                then xor_bytes (map sbox (tl t @ [hd t])) [rcon, 0, 0, 0]
                else if i mod 8 = 4 then map sbox t
                else t)
      in (w @ [xor_bytes (w ! (i - 8)) t'], if i mod 8 = 0 then xtime rcon else rcon))"

definition key_expansion :: "byte list \<Rightarrow> byte list list" where
  "key_expansion key =
     map concat (chunks 15 4 (fst (foldl next_word (chunks 8 4 key, 1) [8 ..< 60])))"

definition shift_rows :: "byte list \<Rightarrow> byte list" where
  "shift_rows s = map (\<lambda>i. s ! i) [0, 5, 10, 15, 4, 9, 14, 3, 8, 13, 2, 7, 12, 1, 6, 11]"

definition mix_column :: "byte list \<Rightarrow> byte list" where
  "mix_column a =
     (let a0 = a ! 0; a1 = a ! 1; a2 = a ! 2; a3 = a ! 3 in
      [xtime a0 XOR (xtime a1 XOR a1) XOR a2 XOR a3,
       a0 XOR xtime a1 XOR (xtime a2 XOR a2) XOR a3,
       a0 XOR a1 XOR xtime a2 XOR (xtime a3 XOR a3),
       (xtime a0 XOR a0) XOR a1 XOR a2 XOR xtime a3])"

definition mix_columns :: "byte list \<Rightarrow> byte list" where
  "mix_columns s = concat (map mix_column (chunks 4 4 s))"

text \<open>The state is sixteen bytes, and so is every round key.\<close>

definition add_round_key :: "byte list \<Rightarrow> byte list \<Rightarrow> byte list" where
  "add_round_key s rk = map (\<lambda>i. s ! i XOR rk ! i) [0 ..< 16]"

definition aes_round :: "byte list \<Rightarrow> byte list \<Rightarrow> byte list" where
  "aes_round s rk = add_round_key (mix_columns (shift_rows (map sbox s))) rk"

definition aes256_encrypt_block :: "byte list \<Rightarrow> byte list \<Rightarrow> byte list" where
  "aes256_encrypt_block key blk =
     (let rk = key_expansion key;
          s = foldl aes_round (add_round_key blk (rk ! 0)) (take 13 (tl rk))
      in add_round_key (shift_rows (map sbox s)) (rk ! 14))"

text \<open>Blocks as 128-bit words, first byte most significant.\<close>

definition block_word :: "byte list \<Rightarrow> 128 word" where
  "block_word bs = foldl (\<lambda>w b. push_bit 8 w OR ucast b) 0 (take 16 (bs @ replicate 16 0))"

definition word_block :: "128 word \<Rightarrow> byte list" where
  "word_block w = map (\<lambda>i. ucast (drop_bit (8 * (15 - i)) w)) [0 ..< 16]"

definition length_block :: "nat \<Rightarrow> nat \<Rightarrow> byte list" where
  "length_block a c = word_block (push_bit 64 (of_nat (8 * a)) OR of_nat (8 * c mod 2 ^ 64))"

text \<open>Multiplication in \<open>GF(2^128)\<close> and \<open>GHASH\<close>.\<close>

definition gf_step :: "128 word \<Rightarrow> 128 word \<times> 128 word \<Rightarrow> nat \<Rightarrow> 128 word \<times> 128 word" where
  "gf_step x zv i =
     (let z = fst zv; v = snd zv in
      (if bit x (127 - i) then z XOR v else z,
       if bit v 0 then drop_bit 1 v XOR push_bit 120 0xE1 else drop_bit 1 v))"

definition gf_mult :: "128 word \<Rightarrow> 128 word \<Rightarrow> 128 word" where
  "gf_mult x y = fst (foldl (gf_step x) (0, y) [0 ..< 128])"

definition ghash :: "128 word \<Rightarrow> byte list \<Rightarrow> 128 word" where
  "ghash h bs =
     foldl (\<lambda>y blk. gf_mult (y XOR block_word blk) h) 0 (chunks (length bs) 16 bs)"

text \<open>
  The counter block \<open>J0\<close> for a nonce (twelve bytes in the source; the general case is
  that of the standard), the key stream, and the tag over the ciphertext, with no
  associated data.
\<close>

definition gcm_j0 :: "byte list \<Rightarrow> byte list \<Rightarrow> byte list" where
  "gcm_j0 key iv =
     (if length iv = 12 then iv @ [0, 0, 0, 1]
      else word_block (ghash (block_word (aes256_encrypt_block key (replicate 16 0)))
             (iv @ replicate ((16 - length iv mod 16) mod 16) 0 @ length_block 0 (length iv))))"

definition inc32 :: "nat \<Rightarrow> byte list \<Rightarrow> byte list" where
  "inc32 i blk =
     (let ctr = (ucast (block_word blk) + of_nat i :: 32 word) in
      take 12 blk @ map (\<lambda>j. ucast (drop_bit (8 * (3 - j)) ctr)) [0 ..< 4])"

definition key_stream :: "byte list \<Rightarrow> byte list \<Rightarrow> nat \<Rightarrow> byte list" where
  "key_stream key iv n =
     take n (concat (map (\<lambda>i. aes256_encrypt_block key (inc32 (Suc i) (gcm_j0 key iv)))
                       [0 ..< (n + 15) div 16]))"

definition gcm_crypt :: "byte list \<Rightarrow> byte list \<Rightarrow> byte list \<Rightarrow> byte list" where
  "gcm_crypt key iv bs = xor_bytes bs (key_stream key iv (length bs))"

definition gcm_tag :: "byte list \<Rightarrow> byte list \<Rightarrow> byte list \<Rightarrow> byte list" where
  "gcm_tag key iv ct =
     (let h = block_word (aes256_encrypt_block key (replicate 16 0));
          s = ghash h (ct @ replicate ((16 - length ct mod 16) mod 16) 0
                       @ length_block 0 (length ct))
      in xor_bytes (word_block s) (aes256_encrypt_block key (gcm_j0 key iv)))"

subsection \<open>The codec: \<open>_encrypt\<close> and \<open>_decrypt\<close>\<close>

text \<open>
  \<open>crypto.randomBytes\<close> reads the next bytes of an entropy source \<open>rnd\<close>, from the
  position \<open>pos\<close> on.
\<close>

definition randomBytes :: "(nat \<Rightarrow> byte) \<Rightarrow> nat \<Rightarrow> nat \<Rightarrow> byte list" where
  "randomBytes rnd pos n = map rnd [pos ..< pos + n]"

text \<open>\<open>if (!this.encryptionKey)\<close>: no key, or the empty string.\<close>

definition key_configured :: "string option \<Rightarrow> bool" where
  "key_configured ek = (case ek of None \<Rightarrow> False | Some k \<Rightarrow> k \<noteq> [])"

definition InvalidKeyLength_encrypt :: err where
  "InvalidKeyLength_encrypt = RequestError ''Encryption key must be 32 bytes (64 hex characters).''"

definition InvalidKeyLength_decrypt :: err where
  "InvalidKeyLength_decrypt = RequestError ''Decryption key must be 32 bytes (64 hex characters).''"

definition MalformedEnvelope_fields :: err where
  "MalformedEnvelope_fields = RequestError ''Invalid encrypted text format. Expected IV:AuthTag:Data.''"

definition MalformedEnvelope_iv :: "nat \<Rightarrow> err" where
  "MalformedEnvelope_iv n =
     RequestError (''Invalid IV length. Expected 12 bytes for AES-GCM, got '' @ digits_of n)"

definition MalformedEnvelope_tag :: "nat \<Rightarrow> err" where
  "MalformedEnvelope_tag n =
     RequestError (''Invalid authTag length. Expected 16 bytes for AES-GCM, got '' @ digits_of n)"

definition DecryptionFailed :: err where
  "DecryptionFailed = RequestError
     (''Decryption failed. Invalid key or corrupted data: ''
      @ ''Unsupported state or unable to authenticate data'')"

text \<open>
  \<open>_encrypt\<close>. The first sixteen random bytes (\<open>iv\<close>) are drawn and not used. The
  cipher's \<open>update\<close> returns the base64 of the whole three-byte groups of the ciphertext
  and \<open>final\<close> the base64 of what is left.
\<close>

definition encrypt :: "string option \<Rightarrow> (nat \<Rightarrow> byte) \<Rightarrow> nat \<Rightarrow> string \<Rightarrow> err + string" where
  "encrypt ek rnd pos text =
     (case ek of
        None \<Rightarrow> Inr text
      | Some k \<Rightarrow>
          if k = [] then Inr text
          else let key = hex_decode k in
            if length key \<noteq> 32 then Inl InvalidKeyLength_encrypt
            else let iv = randomBytes rnd pos 16;
                     iv_gcm = randomBytes rnd (pos + 16) 12;
                     ct = gcm_crypt key iv_gcm (utf8_bytes text);
                     whole = 3 * (length ct div 3);
                     encrypted = base64_encode (take whole ct) @ base64_encode (drop whole ct);
                     authTag = gcm_tag key iv_gcm ct
                 in Inr (base64_encode iv_gcm @ '':'' @ base64_encode authTag @ '':'' @ encrypted))"

text \<open>
  \<open>_decrypt\<close>. \<open>decipher.final\<close> throws when the tag does not authenticate the
  ciphertext; the \<open>catch\<close> wraps that error.
\<close>

definition decrypt :: "string option \<Rightarrow> string \<Rightarrow> err + string" where
  "decrypt ek encryptedText =
     (case ek of
        None \<Rightarrow> Inr encryptedText
      | Some k \<Rightarrow>
          if k = [] then Inr encryptedText
          else let parts = split_on CHR '':'' encryptedText in
            if length parts \<noteq> 3 then Inl MalformedEnvelope_fields
            else let iv_gcm = base64_decode (parts ! 0);
                     authTag = base64_decode (parts ! 1);
                     encryptedData = parts ! 2
                 in if length iv_gcm \<noteq> 12 then Inl (MalformedEnvelope_iv (length iv_gcm))
                    else if length authTag \<noteq> 16 then Inl (MalformedEnvelope_tag (length authTag))
                    else let key = hex_decode k in
                      if length key \<noteq> 32 then Inl InvalidKeyLength_decrypt
                      else let ct = base64_decode encryptedData in
                        if gcm_tag key iv_gcm ct \<noteq> authTag then Inl DecryptionFailed
                        else Inr (utf8_string (gcm_crypt key iv_gcm ct)))"

subsection \<open>The file and \<open>_loadDb\<close>\<close>

text \<open>
  The one file the instance reads and writes: its content when it exists, and the faults
  the file system answers the access check, a read or a write with (a permission error,
  say).
\<close>

record fs =
  content :: "string option"
  access_fault :: "err option"
  read_fault :: "err option"
  write_fault :: "err option"

text \<open>
  \<open>fileContent.trim() === ""\<close>: the text consists of white space and line terminators
  only, in their UTF-8 forms.
\<close>

definition ws3 :: "nat \<Rightarrow> nat \<Rightarrow> nat \<Rightarrow> bool" where
  "ws3 a b c =
     ((a = 0xE1 \<and> b = 0x9A \<and> c = 0x80)
      \<or> (a = 0xE2 \<and> b = 0x80 \<and> (0x80 \<le> c \<and> c \<le> 0x8A \<or> c = 0xA8 \<or> c = 0xA9 \<or> c = 0xAF))
      \<or> (a = 0xE2 \<and> b = 0x81 \<and> c = 0x9F)
      \<or> (a = 0xE3 \<and> b = 0x80 \<and> c = 0x80)
      \<or> (a = 0xEF \<and> b = 0xBB \<and> c = 0xBF))"

fun is_blank :: "string \<Rightarrow> bool" where
  "is_blank [] = True"
| "is_blank [a] = ((of_char a :: nat) \<in> {9, 10, 11, 12, 13, 32})"
| "is_blank [a, b] =
     (if (of_char a :: nat) \<in> {9, 10, 11, 12, 13, 32} then is_blank [b]
      else (of_char a :: nat) = 0xC2 \<and> (of_char b :: nat) = 0xA0)"
| "is_blank (a # b # c # r) =
     (if (of_char a :: nat) \<in> {9, 10, 11, 12, 13, 32} then is_blank (b # c # r)
      else if (of_char a :: nat) = 0xC2 \<and> (of_char b :: nat) = 0xA0 then is_blank (c # r)
      else ws3 (of_char a) (of_char b) (of_char c) \<and> is_blank r)"

text \<open>
  The \<open>catch\<close> of \<open>_loadDb\<close>: a RequestError is thrown on, \<open>ENOENT\<close> means an empty
  database, a SyntaxError becomes the corrupted-data error, anything else is wrapped.
\<close>

definition loadDb_catch :: "err \<Rightarrow> err + jsval" where
  "loadDb_catch error =
     (case error of
        RequestError m \<Rightarrow> Inl error
      | SystemError code m \<Rightarrow>
          if code = ''ENOENT'' then Inr (JObj [])
          else Inl (RequestError (''Failed to load database: '' @ m))
      | SyntaxError m \<Rightarrow> Inl CorruptedJson
      | TypeError m \<Rightarrow> Inl (RequestError (''Failed to load database: '' @ m)))"

text \<open>
  \<open>fs.access(this.dbPath).then(() => true).catch(() => false)\<close>: the check rejects
  when the file does not exist and when the file system refuses the check itself; the
  \<open>catch\<close> turns every rejection into \<open>false\<close>.
\<close>

definition fileExists :: "fs \<Rightarrow> bool" where
  "fileExists d = (case content d of None \<Rightarrow> False | Some s \<Rightarrow> access_fault d = None)"

text \<open>
  \<open>fs.readFile(this.dbPath, "utf-8")\<close>: the content, or the error it rejects with.
\<close>

definition readFile :: "fs \<Rightarrow> err + string" where
  "readFile d =
     (case read_fault d of
        Some e \<Rightarrow> Inl e
      | None \<Rightarrow>
          (case content d of
             None \<Rightarrow> Inl (SystemError ''ENOENT'' ''no such file or directory'')
           | Some s \<Rightarrow> Inr s))"

text \<open>\<open>_loadDb\<close>: the new cache, or the error thrown.\<close>

definition loadDb :: "config \<Rightarrow> fs \<Rightarrow> err + jsval" where
  "loadDb c d =
     (if \<not> fileExists d then Inr (JObj [])
      else (case readFile d of
              Inl e \<Rightarrow> loadDb_catch e
            | Inr fileContent \<Rightarrow>
                if is_blank fileContent then Inr (JObj [])
                else (case (if key_configured (encryptionKey c)
                            then decrypt (encryptionKey c) fileContent else Inr fileContent) of
                        Inl e \<Rightarrow> loadDb_catch e
                      | Inr text \<Rightarrow>
                          (case JSON_parse text of
                             None \<Rightarrow> loadDb_catch (SyntaxError ''Unexpected token'')
                           | Some v \<Rightarrow> Inr v))))"

subsection \<open>Promises and the event loop\<close>

text \<open>
  Every method of the class is an \<open>async\<close> function, and every mutation is chained
  onto \<open>this.writeLock\<close> with \<open>then\<close> and \<open>catch\<close>. The model keeps the promises
  of one instance in a table, the reactions registered on pending promises, the queue of
  promise jobs (microtasks) and the file operations in flight. A function body runs up to
  its first \<open>await\<close>; what follows the \<open>await\<close> is a continuation that a promise job
  resumes. Each callback and each continuation of the source has a constructor below,
  carrying the variables it closes over.
\<close>

type_synonym pid = nat

text \<open>The result objects \<open>{ ok: true }\<close>, \<open>{ ok: true, value }\<close>, \<open>{ ok: false, error }\<close>.\<close>

datatype answer = Ok | OkValue jsval | OkKeys "string list" | NotOk err

datatype pval = VUndefined | VDoc jsval | VAnswer answer | VSize nat | VThis

datatype pstate = Pending | Fulfilled pval | Rejected err

text \<open>The arrow functions passed to \<open>then\<close>: all of them \<open>async\<close>.\<close>

datatype callback =
    LoadTask
  | SetTask string jsval
  | DeleteTask string nat
  | EmptyTask
  | Operation jsval

text \<open>The arrow functions passed to \<open>catch\<close>.\<close>

datatype handler =
    LoadCatch
  | WriteCatch
  | Capture nat

text \<open>
  The continuations: the rest of a function after its n-th \<open>await\<close>, with the promise
  the function returned last.
\<close>

datatype kont =
    GetDbInstance_1 pid
  | WriteDb_1 pid
  | LoadTask_1 pid
  | SetTask_1 string jsval pid
  | SetTask_2 pid
  | DeleteTask_1 string nat pid
  | DeleteTask_2 nat pid
  | EmptyTask_1 pid
  | Get_1 string pid
  | Set_1 nat pid
  | Delete_1 nat pid
  | List_1 pid
  | Size_1 pid
  | Empty_1 nat pid
  | GetAll_1 pid

text \<open>
  What is registered on a promise: \<open>p.then(cb)\<close> and \<open>p.catch(h)\<close> with the promise
  they return, \<open>await p\<close>, and the adoption of \<open>p\<close>'s state by the promise of a
  \<open>then\<close> whose callback returned \<open>p\<close>.
\<close>

datatype reaction =
    Then callback pid
  | Catch handler pid
  | Await kont
  | Adopt pid

text \<open>File operations in flight, with the promise they settle.\<close>

datatype io = LoadOp pid | WriteOp jsval pid

text \<open>
  The variables of one call that its callbacks assign: \<open>errorToThrow\<close>, and
  \<open>result\<close> of \<open>delete\<close>.
\<close>

record frame =
  errorToThrow :: "err option"
  result :: answer

record world =
  conf :: config
  cache :: jsval
  cacheLoaded :: bool
  writeLock :: pid
  promises :: "pstate list"
  reactions :: "(pid \<times> reaction) list"
  microtasks :: "(reaction \<times> pstate) list"
  pending_io :: "io list"
  frames :: "frame list"
  disk :: fs
  entropy :: "nat \<Rightarrow> byte"
  drawn :: nat

text \<open>
  The instance as the constructor leaves it: \<open>cache = null\<close>, \<open>cacheLoaded = false\<close>,
  \<open>writeLock = Promise.resolve()\<close>.
\<close>

definition new_Database :: "config \<Rightarrow> fs \<Rightarrow> (nat \<Rightarrow> byte) \<Rightarrow> world" where
  "new_Database c d rnd =
     \<lparr> conf = c, cache = JNull, cacheLoaded = False, writeLock = 0,
       promises = [Fulfilled VUndefined], reactions = [], microtasks = [], pending_io = [],
       frames = [], disk = d, entropy = rnd, drawn = 0 \<rparr>"

definition new_promise :: "world \<Rightarrow> pid \<times> world" where
  "new_promise w = (length (promises w), w\<lparr> promises := promises w @ [Pending] \<rparr>)"

definition new_frame :: "answer \<Rightarrow> world \<Rightarrow> nat \<times> world" where
  "new_frame r w =
     (length (frames w), w\<lparr> frames := frames w @ [\<lparr> errorToThrow = None, result = r \<rparr>] \<rparr>)"

definition promise_state :: "world \<Rightarrow> pid \<Rightarrow> pstate" where
  "promise_state w p = (if p < length (promises w) then promises w ! p else Pending)"

text \<open>
  Settling a pending promise queues a job for each reaction registered on it, in the order
  of registration; a settled promise stays as it is.
\<close>

definition settle :: "pid \<Rightarrow> pstate \<Rightarrow> world \<Rightarrow> world" where
  "settle p st w =
     (if promise_state w p = Pending \<and> p < length (promises w) then
        w\<lparr> promises := (promises w)[p := st],
           microtasks := microtasks w @ map (\<lambda>pr. (snd pr, st)) (filter (\<lambda>pr. fst pr = p) (reactions w)),
           reactions := filter (\<lambda>pr. fst pr \<noteq> p) (reactions w) \<rparr>
      else w)"

text \<open>
  Registering a reaction: on a pending promise it waits; on a settled one its job is
  queued at once.
\<close>

definition subscribe :: "pid \<Rightarrow> reaction \<Rightarrow> world \<Rightarrow> world" where
  "subscribe p r w =
     (case promise_state w p of
        Pending \<Rightarrow> w\<lparr> reactions := reactions w @ [(p, r)] \<rparr>
      | st \<Rightarrow> w\<lparr> microtasks := microtasks w @ [(r, st)] \<rparr>)"

definition promise_then :: "pid \<Rightarrow> callback \<Rightarrow> world \<Rightarrow> pid \<times> world" where
  "promise_then p cb w = (let (d, w1) = new_promise w in (d, subscribe p (Then cb d) w1))"

definition promise_catch :: "pid \<Rightarrow> handler \<Rightarrow> world \<Rightarrow> pid \<times> world" where
  "promise_catch p h w = (let (d, w1) = new_promise w in (d, subscribe p (Catch h d) w1))"

subsection \<open>\<open>_getDbInstance\<close> and \<open>_writeDb\<close>\<close>

text \<open>\<open>return this._clone(this.cache)\<close> in the function whose promise is \<open>g\<close>.\<close>

definition return_clone :: "pid \<Rightarrow> world \<Rightarrow> world" where
  "return_clone g w =
     (case clone (cache w) of
        Inl e \<Rightarrow> settle g (Rejected e) w
      | Inr d \<Rightarrow> settle g (Fulfilled (VDoc d)) w)"

text \<open>
  \<open>_getDbInstance\<close>: with the cache not loaded, the load is chained onto
  \<open>this.writeLock\<close>, the chained promise becomes the new \<open>writeLock\<close>, and the function
  awaits it.
\<close>

definition getDbInstance :: "world \<Rightarrow> pid \<times> world" where
  "getDbInstance w =
     (let (g, w1) = new_promise w in
      if \<not> cacheLoaded w1 then
        (let (l1, w2) = promise_then (writeLock w1) LoadTask w1;
             (l2, w3) = promise_catch l1 LoadCatch w2;
             w4 = w3\<lparr> writeLock := l2 \<rparr>
         in (g, subscribe (writeLock w4) (Await (GetDbInstance_1 g)) w4))
      else (g, return_clone g w1))"

text \<open>
  \<open>_writeDb\<close>: the cache is replaced first; then \<open>operation\<close> is chained onto
  \<open>this.writeLock\<close>, the chained promise becomes the new \<open>writeLock\<close>, and the function
  awaits it.
\<close>

definition writeDb :: "jsval \<Rightarrow> world \<Rightarrow> pid \<times> world" where
  "writeDb data w =
     (let (p, w1) = new_promise w in
      case clone data of
        Inl e \<Rightarrow> (p, settle p (Rejected e) w1)
      | Inr c \<Rightarrow>
          (let w2 = w1\<lparr> cache := c, cacheLoaded := True \<rparr>;
               (o1, w3) = promise_then (writeLock w2) (Operation data) w2;
               (o2, w4) = promise_catch o1 WriteCatch w3;
               w5 = w4\<lparr> writeLock := o2 \<rparr>
           in (p, subscribe (writeLock w5) (Await (WriteDb_1 p)) w5)))"

subsection \<open>The callbacks\<close>

text \<open>
  Calling an \<open>async\<close> arrow function: it returns its promise \<open>q\<close>, having run to its
  first \<open>await\<close>. \<open>_loadDb\<close> and \<open>operation\<close> await the file system (and the
  codec) only; the model runs each as one file operation that settles their promise.
\<close>

fun invoke :: "callback \<Rightarrow> world \<Rightarrow> pid \<times> world" where
  "invoke LoadTask w =
     (let (q, w1) = new_promise w in
      if \<not> cacheLoaded w1 then
        (let (l, w2) = new_promise w1;
             w3 = w2\<lparr> pending_io := pending_io w2 @ [LoadOp l] \<rparr>
         in (q, subscribe l (Await (LoadTask_1 q)) w3))
      else (q, settle q (Fulfilled VUndefined) w1))"
| "invoke (SetTask key v) w =
     (let (q, w1) = new_promise w;
          (g, w2) = getDbInstance w1
      in (q, subscribe g (Await (SetTask_1 key v q)) w2))"
| "invoke (DeleteTask key f) w =
     (let (q, w1) = new_promise w;
          (g, w2) = getDbInstance w1
      in (q, subscribe g (Await (DeleteTask_1 key f q)) w2))"
| "invoke EmptyTask w =
     (let (q, w1) = new_promise w;
          (p, w2) = writeDb (JObj []) w1
      in (q, subscribe p (Await (EmptyTask_1 q)) w2))"
| "invoke (Operation data) w =
     (let (q, w1) = new_promise w in
      (q, w1\<lparr> pending_io := pending_io w1 @ [WriteOp data q] \<rparr>))"

text \<open>
  The \<open>catch\<close> handlers: what they throw (\<open>Inl\<close>) or return, and the state they leave.
\<close>

definition set_errorToThrow :: "nat \<Rightarrow> err \<Rightarrow> world \<Rightarrow> world" where
  "set_errorToThrow f e w =
     (if f < length (frames w)
      then w\<lparr> frames := (frames w)[f := (frames w ! f)\<lparr> errorToThrow := Some e \<rparr>] \<rparr>
      else w)"

definition set_result :: "nat \<Rightarrow> answer \<Rightarrow> world \<Rightarrow> world" where
  "set_result f r w =
     (if f < length (frames w)
      then w\<lparr> frames := (frames w)[f := (frames w ! f)\<lparr> result := r \<rparr>] \<rparr>
      else w)"

definition error_message :: "err \<Rightarrow> string" where
  "error_message e =
     (case e of RequestError m \<Rightarrow> m | TypeError m \<Rightarrow> m | SyntaxError m \<Rightarrow> m
      | SystemError code m \<Rightarrow> m)"

definition is_RequestError :: "err \<Rightarrow> bool" where
  "is_RequestError e = (case e of RequestError m \<Rightarrow> True | _ \<Rightarrow> False)"

fun handle :: "handler \<Rightarrow> err \<Rightarrow> world \<Rightarrow> (err + pval) \<times> world" where
  "handle LoadCatch e w = (Inl e, w\<lparr> cacheLoaded := False \<rparr>)"
| "handle WriteCatch e w =
     (if is_RequestError e then (Inl e, w)
      else (Inl (RequestError (''Failed to write to database: '' @ error_message e)), w))"
| "handle (Capture f) e w = (Inr VUndefined, set_errorToThrow f e w)"

subsection \<open>The continuations, and the public operations\<close>

definition doc_of :: "pval \<Rightarrow> jsval" where
  "doc_of v = (case v of VDoc d \<Rightarrow> d | _ \<Rightarrow> JUndefined)"

text \<open>
  The end of \<open>set\<close>, \<open>delete\<close> and \<open>empty\<close>:
  \<open>if (errorToThrow) throw errorToThrow; return ...\<close>.
\<close>

definition throw_or_return :: "nat \<Rightarrow> pid \<Rightarrow> pval \<Rightarrow> world \<Rightarrow> world" where
  "throw_or_return f r v w =
     (case (if f < length (frames w) then errorToThrow (frames w ! f) else None) of
        Some e \<Rightarrow> settle r (Rejected e) w
      | None \<Rightarrow> settle r (Fulfilled v) w)"

definition frame_result :: "world \<Rightarrow> nat \<Rightarrow> answer" where
  "frame_result w f = (if f < length (frames w) then result (frames w ! f) else NotOk KeyNotFound)"

definition as_RequestError :: "err \<Rightarrow> err" where
  "as_RequestError e = (if is_RequestError e then e else RequestError (error_message e))"

text \<open>A continuation resumed with the value of the promise it awaited.\<close>

fun resume_value :: "kont \<Rightarrow> pval \<Rightarrow> world \<Rightarrow> world" where
  "resume_value (GetDbInstance_1 g) v w = return_clone g w"
| "resume_value (WriteDb_1 p) v w = settle p (Fulfilled VUndefined) w"
| "resume_value (LoadTask_1 q) v w = settle q (Fulfilled VUndefined) w"
| "resume_value (SetTask_1 key val q) v w =
     (case js_assign (doc_of v) key val of
        Inl e \<Rightarrow> settle q (Rejected e) w
      | Inr db \<Rightarrow> (let (p, w1) = writeDb db w in subscribe p (Await (SetTask_2 q)) w1))"
| "resume_value (SetTask_2 q) v w = settle q (Fulfilled VUndefined) w"
| "resume_value (DeleteTask_1 key f q) v w =
     (case js_in key (doc_of v) of
        Inl e \<Rightarrow> settle q (Rejected e) w
      | Inr False \<Rightarrow> settle q (Fulfilled VUndefined) w
      | Inr True \<Rightarrow>
          (case js_delete (doc_of v) key of
             Inl e \<Rightarrow> settle q (Rejected e) w
           | Inr db \<Rightarrow>
               (let (p, w1) = writeDb db w in subscribe p (Await (DeleteTask_2 f q)) w1)))"
| "resume_value (DeleteTask_2 f q) v w = settle q (Fulfilled VUndefined) (set_result f Ok w)"
| "resume_value (EmptyTask_1 q) v w = settle q (Fulfilled VUndefined) w"
| "resume_value (Get_1 key r) v w =
     (case js_in key (doc_of v) of
        Inl e \<Rightarrow> settle r (Rejected e) w
      | Inr True \<Rightarrow> settle r (Fulfilled (VAnswer (OkValue (js_get (doc_of v) key)))) w
      | Inr False \<Rightarrow> settle r (Fulfilled (VAnswer (NotOk KeyNotFound))) w)"
| "resume_value (Set_1 f r) v w = throw_or_return f r VUndefined w"
| "resume_value (Delete_1 f r) v w = throw_or_return f r (VAnswer (frame_result w f)) w"
| "resume_value (List_1 r) v w =
     (case Object_keys (doc_of v) of
        Inl e \<Rightarrow> settle r (Fulfilled (VAnswer (NotOk (as_RequestError e)))) w
      | Inr ks \<Rightarrow> settle r (Fulfilled (VAnswer (OkKeys ks))) w)"
| "resume_value (Size_1 r) v w =
     (case Object_keys (doc_of v) of
        Inl e \<Rightarrow> settle r (Rejected e) w
      | Inr ks \<Rightarrow> settle r (Fulfilled (VSize (length ks))) w)"
| "resume_value (Empty_1 f r) v w = throw_or_return f r VThis w"
| "resume_value (GetAll_1 r) v w = settle r (Fulfilled v) w"

text \<open>
  A continuation resumed with the error of the promise it awaited: the \<open>await\<close> throws.
  Only \<open>list\<close> has a \<open>try\<close> around it; everywhere else the function's own promise is
  rejected.
\<close>

fun returns_to :: "kont \<Rightarrow> pid" where
  "returns_to (GetDbInstance_1 g) = g"
| "returns_to (WriteDb_1 p) = p"
| "returns_to (LoadTask_1 q) = q"
| "returns_to (SetTask_1 key val q) = q"
| "returns_to (SetTask_2 q) = q"
| "returns_to (DeleteTask_1 key f q) = q"
| "returns_to (DeleteTask_2 f q) = q"
| "returns_to (EmptyTask_1 q) = q"
| "returns_to (Get_1 key r) = r"
| "returns_to (Set_1 f r) = r"
| "returns_to (Delete_1 f r) = r"
| "returns_to (List_1 r) = r"
| "returns_to (Size_1 r) = r"
| "returns_to (Empty_1 f r) = r"
| "returns_to (GetAll_1 r) = r"

definition resume_error :: "kont \<Rightarrow> err \<Rightarrow> world \<Rightarrow> world" where
  "resume_error k e w =
     (case k of
        List_1 r \<Rightarrow> settle r (Fulfilled (VAnswer (NotOk (as_RequestError e)))) w
      | _ \<Rightarrow> settle (returns_to k) (Rejected e) w)"

definition resume :: "kont \<Rightarrow> pstate \<Rightarrow> world \<Rightarrow> world" where
  "resume k st w =
     (case st of
        Pending \<Rightarrow> w
      | Fulfilled v \<Rightarrow> resume_value k v w
      | Rejected e \<Rightarrow> resume_error k e w)"

text \<open>One promise job.\<close>

definition run_reaction :: "reaction \<Rightarrow> pstate \<Rightarrow> world \<Rightarrow> world" where
  "run_reaction r st w =
     (case r of
        Then cb d \<Rightarrow>
          (case st of
             Pending \<Rightarrow> w
           | Fulfilled v \<Rightarrow> (let (q, w1) = invoke cb w in subscribe q (Adopt d) w1)
           | Rejected e \<Rightarrow> settle d (Rejected e) w)
      | Catch h d \<Rightarrow>
          (case st of
             Pending \<Rightarrow> w
           | Fulfilled v \<Rightarrow> settle d (Fulfilled v) w
           | Rejected e \<Rightarrow>
               (case handle h e w of
                  (Inl e', w1) \<Rightarrow> settle d (Rejected e') w1
                | (Inr v, w1) \<Rightarrow> settle d (Fulfilled v) w1))
      | Await k \<Rightarrow> resume k st w
      | Adopt d \<Rightarrow> settle d st w)"

text \<open>
  One file operation. \<open>LoadOp\<close> is the body of \<open>_loadDb\<close>; \<open>WriteOp\<close> is
  \<open>operation\<close> of \<open>_writeDb\<close>: serialise with two spaces, encrypt when a key is
  configured, write the file.
\<close>

definition run_io :: "io \<Rightarrow> world \<Rightarrow> world" where
  "run_io x w =
     (case x of
        LoadOp l \<Rightarrow>
          (case loadDb (conf w) (disk w) of
             Inl e \<Rightarrow> settle l (Rejected e) w
           | Inr c \<Rightarrow> settle l (Fulfilled (VDoc c)) (w\<lparr> cache := c, cacheLoaded := True \<rparr>))
      | WriteOp data q \<Rightarrow>
          (case JSON_stringify ''  '' data of
             Inl e \<Rightarrow> settle q (Rejected e) w
           | Inr None \<Rightarrow>
               settle q (Rejected (TypeError ''The data argument must be of type string'')) w
           | Inr (Some text) \<Rightarrow>
               (case encrypt (encryptionKey (conf w)) (entropy w) (drawn w) text of
                  Inl e \<Rightarrow> settle q (Rejected e) w
                | Inr dataToWrite \<Rightarrow>
                    (let w1 = (if key_configured (encryptionKey (conf w))
                               then w\<lparr> drawn := drawn w + 28 \<rparr> else w)
                     in case write_fault (disk w1) of
                          Some e \<Rightarrow> settle q (Rejected e) w1
                        | None \<Rightarrow>
                            settle q (Fulfilled VUndefined)
                              (w1\<lparr> disk := (disk w1)\<lparr> content := Some dataToWrite \<rparr> \<rparr>)))))"

text \<open>
  The event loop: the promise jobs first, in order; with none left, the next file
  operation completes. \<open>None\<close>: nothing is left to run.
\<close>

definition step :: "world \<Rightarrow> world option" where
  "step w =
     (case microtasks w of
        j # js \<Rightarrow> Some (run_reaction (fst j) (snd j) (w\<lparr> microtasks := js \<rparr>))
      | [] \<Rightarrow>
          (case pending_io w of
             x # xs \<Rightarrow> Some (run_io x (w\<lparr> pending_io := xs \<rparr>))
           | [] \<Rightarrow> None))"

fun run :: "nat \<Rightarrow> world \<Rightarrow> world" where
  "run 0 w = w"
| "run (Suc n) w = (case step w of None \<Rightarrow> w | Some w1 \<Rightarrow> run n w1)"

definition quiescent :: "world \<Rightarrow> bool" where
  "quiescent w = (microtasks w = [] \<and> pending_io w = [])"

text \<open>
  The public operations: each returns the promise of the call and the state in which the
  call has run to its first \<open>await\<close>.
\<close>

definition Database_get :: "string \<Rightarrow> world \<Rightarrow> pid \<times> world" where
  "Database_get key w =
     (let (r, w1) = new_promise w;
          (g, w2) = getDbInstance w1
      in (r, subscribe g (Await (Get_1 key r)) w2))"

definition Database_set :: "string \<Rightarrow> jsval \<Rightarrow> world \<Rightarrow> pid \<times> world" where
  "Database_set key v w =
     (let (r, w1) = new_promise w;
          (f, w2) = new_frame (NotOk KeyNotFound) w1;
          (a, w3) = promise_then (writeLock w2) (SetTask key v) w2;
          (b, w4) = promise_catch a (Capture f) w3;
          w5 = w4\<lparr> writeLock := b \<rparr>
      in (r, subscribe (writeLock w5) (Await (Set_1 f r)) w5))"

definition Database_delete :: "string \<Rightarrow> world \<Rightarrow> pid \<times> world" where
  "Database_delete key w =
     (let (r, w1) = new_promise w;
          (f, w2) = new_frame (NotOk KeyNotFound) w1;
          (a, w3) = promise_then (writeLock w2) (DeleteTask key f) w2;
          (b, w4) = promise_catch a (Capture f) w3;
          w5 = w4\<lparr> writeLock := b \<rparr>
      in (r, subscribe (writeLock w5) (Await (Delete_1 f r)) w5))"

definition Database_list :: "world \<Rightarrow> pid \<times> world" where
  "Database_list w =
     (let (r, w1) = new_promise w;
          (g, w2) = getDbInstance w1
      in (r, subscribe g (Await (List_1 r)) w2))"

definition Database_size :: "world \<Rightarrow> pid \<times> world" where
  "Database_size w =
     (let (r, w1) = new_promise w;
          (g, w2) = getDbInstance w1
      in (r, subscribe g (Await (Size_1 r)) w2))"

definition Database_empty :: "world \<Rightarrow> pid \<times> world" where
  "Database_empty w =
     (let (r, w1) = new_promise w;
          (f, w2) = new_frame (NotOk KeyNotFound) w1;
          (a, w3) = promise_then (writeLock w2) EmptyTask w2;
          (b, w4) = promise_catch a (Capture f) w3;
          w5 = w4\<lparr> writeLock := b \<rparr>
      in (r, subscribe (writeLock w5) (Await (Empty_1 f r)) w5))"

definition Database_getAll :: "world \<Rightarrow> pid \<times> world" where
  "Database_getAll w =
     (let (r, w1) = new_promise w;
          (g, w2) = getDbInstance w1
      in (r, subscribe g (Await (GetAll_1 r)) w2))"

text \<open>
  A caller: \<open>issue\<close> makes the call; \<open>run n\<close> then lets the event loop take up to
  \<open>n\<close> turns. A program that awaits the call goes on when the call's promise is
  settled, and never when it stays pending.
\<close>

datatype call = Get string | Set string jsval | Delete string | List | Size | Empty | GetAll

fun issue :: "call \<Rightarrow> world \<Rightarrow> pid \<times> world" where
  "issue (Get key) w = Database_get key w"
| "issue (Set key v) w = Database_set key v w"
| "issue (Delete key) w = Database_delete key w"
| "issue List w = Database_list w"
| "issue Size w = Database_size w"
| "issue Empty w = Database_empty w"
| "issue GetAll w = Database_getAll w"

definition outcome :: "nat \<Rightarrow> call \<Rightarrow> world \<Rightarrow> pstate" where
  "outcome n c w = promise_state (run n (snd (issue c w))) (fst (issue c w))"

definition after :: "nat \<Rightarrow> call \<Rightarrow> world \<Rightarrow> world" where
  "after n c w = run n (snd (issue c w))"

text \<open>
  \<open>all_along n Q w\<close>: \<open>Q\<close> holds in \<open>w\<close> and after each of the next turns of the
  event loop, and the loop has come to rest after at most \<open>n\<close> of them.
\<close>

fun all_along :: "nat \<Rightarrow> (world \<Rightarrow> bool) \<Rightarrow> world \<Rightarrow> bool" where
  "all_along 0 Q w = (Q w \<and> quiescent w)"
| "all_along (Suc n) Q w =
     (Q w \<and> (case step w of None \<Rightarrow> True | Some w1 \<Rightarrow> all_along n Q w1))"

text \<open>
  The instance at rest with its lock free: nothing is left to run, the promise in
  \<open>writeLock\<close> is fulfilled, and every reaction waits on a promise that exists. A new
  instance is in this state, and so is one whose reads have completed.
\<close>

definition lock_free :: "world \<Rightarrow> bool" where
  "lock_free w =
     (quiescent w
      \<and> (case promise_state w (writeLock w) of Fulfilled v \<Rightarrow> True | _ \<Rightarrow> False)
      \<and> list_all (\<lambda>pr. fst pr < length (promises w)) (reactions w))"

section \<open>Properties\<close>

subsection \<open>The constructor\<close>

text \<open>
  C7. The claim: construction fails with PathTraversal for every file name that resolves
  outside the working directory. The source compares the two paths as strings
  (\<open>startsWith\<close>), so a sibling directory whose name extends the working directory's name
  passes: with the working directory \<open>/srv/app\<close> the name \<open>../app2/db.json\<close>
  resolves to \<open>/srv/app2/db.json\<close>, which is not contained in \<open>/srv/app\<close>, and the
  constructor returns an instance for it.
\<close>

theorem constructor_accepts_sibling_directory:
  "Database_constructor ''/srv/app'' ''../app2/db.json'' None
     = Inr \<lparr> dbPath = ''/srv/app2/db.json'', encryptionKey = None \<rparr>
   \<and> \<not> contained_in ''/srv/app'' (path_resolve ''/srv/app'' ''../app2/db.json'')"
  by (simp add: Database_constructor_def path_resolve_def path_segments_def
      path_basename_def startsWith_def contained_in_def PathTraversal_def InvalidFilename_def)


subsection \<open>The codec\<close>

lemma base64_char_props:
  assumes "i < 64"
  shows "unbase64 (base64_char i) = Some i" "base64_char i \<noteq> CHR ''=''"
    "base64_char i \<noteq> CHR '':''"
proof -
  have c: "of_char (base64_char i) = (if i < 26 then 65 + i else if i < 52 then 71 + i
            else if i < 62 then i - 4 else if i = 62 then 43 else (47::nat))"
    using assms by (simp add: base64_char_def)
  show "unbase64 (base64_char i) = Some i"
    using assms unfolding unbase64_def Let_def c
    by (auto simp: base64_char_def)
  have "of_char (base64_char i) \<noteq> (61::nat)" "of_char (base64_char i) \<noteq> (58::nat)"
    using assms unfolding c by auto
  then show "base64_char i \<noteq> CHR ''=''" "base64_char i \<noteq> CHR '':''"
    by auto
qed

lemma q16: "(y::nat) < 256 \<Longrightarrow> y div 16 < 16" by (simp add: less_mult_imp_div_less)
lemma q64: "(z::nat) < 256 \<Longrightarrow> z div 64 < 4" by (simp add: less_mult_imp_div_less)
lemma q4: "(x::nat) < 256 \<Longrightarrow> x div 4 < 64" by (simp add: less_mult_imp_div_less)

lemma m4: "(x::nat) mod 4 * 16 + y div 16 < 64" if "y < 256"
proof -
  have "x mod 4 \<le> 3" by (simp add: less_Suc_eq_le[symmetric])
  then have "x mod 4 * 16 \<le> 48" by simp
  moreover have "y div 16 < 16" using that by (rule q16)
  ultimately show ?thesis by simp
qed

lemma m16: "(y::nat) mod 16 * 4 + z div 64 < 64" if "z < 256"
proof -
  have "y mod 16 \<le> 15" by (simp add: less_Suc_eq_le[symmetric])
  then have "y mod 16 * 4 \<le> 60" by simp
  moreover have "z div 64 < 4" using that by (rule q64)
  ultimately show ?thesis by simp
qed

lemma b1: "(x::nat) div 4 * 4 + (x mod 4 * 16 + y div 16) div 16 = x" if "y < 256"
  using q16[OF that] by simp

lemma b2: "((x::nat) mod 4 * 16 + y div 16) mod 16 * 16 + (y mod 16 * 4 + z div 64) div 4 = y"
  if "y < 256" "z < 256"
  using q16[OF that(1)] q64[OF that(2)] by simp

lemma b3: "((y::nat) mod 16 * 4 + z div 64) mod 4 * 64 + z mod 64 = z" if "z < 256"
  using q64[OF that] by simp

lemma unat_byte: "unat (a :: byte) < 256"
  using unsigned_less[of a, where 'a = nat] by simp

lemma sextet_bounds:
  "unat (a::byte) div 4 < 64" "unat (a::byte) mod 4 * 16 + unat (b::byte) div 16 < 64"
  "unat (b::byte) mod 16 * 4 + unat (c::byte) div 64 < 64" "unat (c::byte) mod 64 < 64"
  "unat (a::byte) mod 4 * 16 < 64" "unat (b::byte) mod 16 * 4 < 64"
  using q4[OF unat_byte[of a]] m4[OF unat_byte[of b], of "unat a"] m16[OF unat_byte[of c], of "unat b"]
    m4[of 0 "unat a"] m16[of 0 "unat b"]
  by simp_all

lemma byte1: "(of_nat (unat a div 4 * 4 + (unat a mod 4 * 16 + unat (b::byte) div 16) div 16) :: byte) = a"
  by (simp only: b1[OF unat_byte] of_nat_unat ucast_id)

lemma byte2: "(of_nat ((unat (a::byte) mod 4 * 16 + unat b div 16) mod 16 * 16
                 + (unat b mod 16 * 4 + unat (c::byte) div 64) div 4) :: byte) = b"
  by (simp only: b2[OF unat_byte unat_byte] of_nat_unat ucast_id)

lemma byte3: "(of_nat ((unat (b::byte) mod 16 * 4 + unat c div 64) mod 4 * 64 + unat c mod 64) :: byte) = c"
  by (simp only: b3[OF unat_byte] of_nat_unat ucast_id)

lemma byte1': "(of_nat (unat a div 4 * 4 + (unat a mod 4 * 16) div 16) :: byte) = a"
  using byte1[of a 0] by simp

lemma byte2': "(of_nat ((unat (a::byte) mod 4 * 16 + unat b div 16) mod 16 * 16
                 + (unat b mod 16 * 4) div 4) :: byte) = b"
  using byte2[of a b 0] by simp

lemma sextets_char: "i < 64 \<Longrightarrow> sextets (base64_char i # s) = i # sextets s"
  by (simp add: sextets_def base64_char_props List.map_filter_simps)

lemma sextets_pad: "sextets (CHR ''='' # s) = []"
  by (simp add: sextets_def List.map_filter_simps)

lemma sextets_nil: "sextets [] = []"
  by (simp add: sextets_def List.map_filter_simps)

lemma group4:
  "sextets_to_bytes (unat a div 4 # (unat a mod 4 * 16 + unat b div 16)
      # (unat b mod 16 * 4 + unat c div 64) # (unat c mod 64) # r) = a # b # c # sextets_to_bytes r"
  by (simp only: sextets_to_bytes.simps byte1 byte2 byte3 append_Cons append_Nil)

lemma group3:
  "sextets_to_bytes [unat a div 4, unat a mod 4 * 16 + unat b div 16, unat b mod 16 * 4] = [a, b]"
  by (simp only: sextets_to_bytes.simps byte1 byte2')

lemma group2: "sextets_to_bytes [unat a div 4, unat a mod 4 * 16] = [a]"
  by (simp only: sextets_to_bytes.simps byte1')

lemma base64_roundtrip: "base64_decode (base64_encode bs) = bs"
proof -
  have "sextets_to_bytes (sextets (base64_encode bs)) = bs"
  proof (induction bs rule: base64_encode.induct)
    case (1 a b c r)
    then show ?case
      by (simp add: sextets_char sextet_bounds group4 del: sextets_to_bytes.simps)
  next
    case (2 a b)
    then show ?case
      by (simp add: sextets_char sextets_pad sextet_bounds group3 del: sextets_to_bytes.simps)
  next
    case (3 a)
    then show ?case
      by (simp add: sextets_char sextets_pad sextet_bounds group2 del: sextets_to_bytes.simps)
  next
    case 4
    then show ?case by (simp add: sextets_nil)
  qed
  then show ?thesis by (simp add: base64_decode_def sextets_def)
qed

lemma base64_no_colon: "CHR '':'' \<notin> set (base64_encode bs)"
  using base64_char_props(3)[symmetric]
  by (induction bs rule: base64_encode.induct) (simp_all add: sextet_bounds)


lemma base64_encode_append:
  "length xs mod 3 = 0 \<Longrightarrow> base64_encode (xs @ ys) = base64_encode xs @ base64_encode ys"
proof (induction xs rule: base64_encode.induct)
  case (1 a b c r)
  then show ?case by simp
qed simp_all

lemma base64_update_final:
  "base64_encode (take (3 * (length ct div 3)) ct) @ base64_encode (drop (3 * (length ct div 3)) ct)
   = base64_encode ct"
proof -
  have "3 * (length ct div 3) \<le> length ct"
    using div_mult_mod_eq[of "length ct" 3] by linarith
  then have "length (take (3 * (length ct div 3)) ct) mod 3 = 0"
    by (simp add: min_absorb2)
  from base64_encode_append[OF this, of "drop (3 * (length ct div 3)) ct"]
  show ?thesis by simp
qed

lemma split_on_no_sep: "c \<notin> set s \<Longrightarrow> split_on c s = [s]"
  by (induction s) auto

lemma split_on_append:
  "c \<notin> set a \<Longrightarrow> split_on c (a @ c # r) = a # split_on c r"
  by (induction a) (auto split: list.splits)

lemma split_envelope:
  assumes "CHR '':'' \<notin> set a" "CHR '':'' \<notin> set b" "CHR '':'' \<notin> set c"
  shows "split_on CHR '':'' (a @ CHR '':'' # b @ CHR '':'' # c) = [a, b, c]"
  using assms by (simp add: split_on_append split_on_no_sep)

lemma utf8_roundtrip: "utf8_string (utf8_bytes t) = t"
  by (simp add: utf8_string_def utf8_bytes_def unat_of_nat o_def map_idI)

lemma length_add_round_key: "length (add_round_key s rk) = 16"
  by (simp add: add_round_key_def)

lemma length_aes: "length (aes256_encrypt_block key blk) = 16"
  by (simp add: aes256_encrypt_block_def Let_def length_add_round_key)

lemma length_concat_blocks:
  "length (concat (map (\<lambda>i. aes256_encrypt_block key (f i)) xs)) = 16 * length xs"
  by (induction xs) (simp_all add: length_aes)

lemma length_key_stream: "length (key_stream key iv n) = n"
proof -
  have "(n + 15) mod 16 < 16" by simp
  then have "n \<le> 16 * ((n + 15) div 16)"
    using div_mult_mod_eq[of "n + 15" 16] by linarith
  then show ?thesis
    by (simp add: key_stream_def length_concat_blocks min_absorb1)
qed

lemma xor_bytes_twice: "length ks = length bs \<Longrightarrow> xor_bytes (xor_bytes bs ks) ks = bs"
proof (induction bs arbitrary: ks)
  case Nil
  then show ?case by (simp add: xor_bytes_def)
next
  case (Cons b bs)
  then obtain k ks' where "ks = k # ks'" by (cases ks) auto
  with Cons show ?case by (simp add: xor_bytes_def xor.assoc)
qed

lemma length_gcm_crypt: "length (gcm_crypt key iv bs) = length bs"
  by (simp add: gcm_crypt_def xor_bytes_def length_key_stream)

lemma gcm_crypt_twice: "gcm_crypt key iv (gcm_crypt key iv bs) = bs"
  using xor_bytes_twice[of "key_stream key iv (length bs)" bs]
  by (simp add: gcm_crypt_def xor_bytes_def length_key_stream)

lemma length_gcm_tag: "length (gcm_tag key iv ct) = 16"
  by (simp add: gcm_tag_def Let_def xor_bytes_def word_block_def length_aes)


lemma hex_decode_nonempty: "length (hex_decode k) = 32 \<Longrightarrow> k \<noteq> []"
  by auto

lemma encrypt_envelope:
  assumes "length (hex_decode k) = 32"
  shows "encrypt (Some k) rnd pos t =
           Inr (base64_encode (randomBytes rnd (pos + 16) 12) @ '':''
                @ base64_encode (gcm_tag (hex_decode k) (randomBytes rnd (pos + 16) 12)
                                   (gcm_crypt (hex_decode k) (randomBytes rnd (pos + 16) 12) (utf8_bytes t)))
                @ '':''
                @ base64_encode (gcm_crypt (hex_decode k) (randomBytes rnd (pos + 16) 12) (utf8_bytes t)))"
  using assms hex_decode_nonempty[OF assms]
  by (simp add: encrypt_def Let_def base64_update_final)

lemma decrypt_envelope:
  assumes k: "length (hex_decode k) = 32" and iv: "length iv = 12"
    and tag: "tag = gcm_tag (hex_decode k) iv ct"
  shows "decrypt (Some k) (base64_encode iv @ '':'' @ base64_encode tag @ '':'' @ base64_encode ct)
           = Inr (utf8_string (gcm_crypt (hex_decode k) iv ct))"
  using k iv hex_decode_nonempty[OF k]
  by (simp add: decrypt_def Let_def split_envelope base64_no_colon base64_roundtrip
      length_gcm_tag tag)

lemma encrypt_then_decrypt:
  assumes "length (hex_decode k) = 32"
  shows "\<exists>blob. encrypt (Some k) rnd pos t = Inr blob \<and> decrypt (Some k) blob = Inr t"
proof -
  let ?iv = "randomBytes rnd (pos + 16) 12"
  let ?ct = "gcm_crypt (hex_decode k) ?iv (utf8_bytes t)"
  have "length ?iv = 12" by (simp add: randomBytes_def)
  from decrypt_envelope[OF assms this refl, of ?ct]
  have "decrypt (Some k) (base64_encode ?iv @ '':''
          @ base64_encode (gcm_tag (hex_decode k) ?iv ?ct) @ '':'' @ base64_encode ?ct) = Inr t"
    by (simp add: gcm_crypt_twice utf8_roundtrip)
  with encrypt_envelope[OF assms, of rnd pos t] show ?thesis by simp
qed

text \<open>
  C2. For every key of 32 bytes (64 hexadecimal digits), every text and every nonce the
  encoder draws, \<open>_encrypt\<close> returns an envelope, and \<open>_decrypt\<close> with the same key
  returns the text from it.
\<close>

theorem encrypt_decrypt_roundtrip:
  assumes "length (hex_decode k) = 32"
  shows "\<exists>blob. encrypt (Some k) rnd pos t = Inr blob \<and> decrypt (Some k) blob = Inr t"
  using assms by (rule encrypt_then_decrypt)

theorem encrypt_decrypt_roundtrip_witness:
  "length (hex_decode ''000102030405060708090a0b0c0d0e0f101112131415161718191a1b1c1d1e1f'') = 32
   \<and> (\<exists>blob. encrypt (Some ''000102030405060708090a0b0c0d0e0f101112131415161718191a1b1c1d1e1f'')
                 (\<lambda>i. of_nat i) 0 ''{}'' = Inr blob
        \<and> decrypt (Some ''000102030405060708090a0b0c0d0e0f101112131415161718191a1b1c1d1e1f'') blob
            = Inr ''{}'')"
proof -
  have h: "length (hex_decode ''000102030405060708090a0b0c0d0e0f101112131415161718191a1b1c1d1e1f'') = 32"
    by (simp add: hex_val_def)
  from encrypt_decrypt_roundtrip[OF h] h show ?thesis by blast
qed

lemma decrypt_success:
  assumes k: "length (hex_decode k) = 32" and d: "decrypt (Some k) x = Inr t"
  shows "\<exists>a b c. split_on CHR '':'' x = [a, b, c] \<and> length (base64_decode a) = 12
            \<and> base64_decode b = gcm_tag (hex_decode k) (base64_decode a) (base64_decode c)
            \<and> t = utf8_string (gcm_crypt (hex_decode k) (base64_decode a) (base64_decode c))"
proof -
  have ne: "k \<noteq> []" using k by (rule hex_decode_nonempty)
  from d ne have l: "length (split_on CHR '':'' x) = 3"
    by (simp add: decrypt_def Let_def split: if_split_asm)
  then obtain a b c where s: "split_on CHR '':'' x = [a, b, c]"
    by (auto simp: length_Suc_conv eval_nat_numeral)
  from d ne k show ?thesis
    unfolding s decrypt_def Let_def
    by (auto simp: s split: if_split_asm)
qed

lemma decrypt_fields:
  assumes k: "length (hex_decode k) = 32" and s: "split_on CHR '':'' x = [a, b, c]"
    and iv: "length (base64_decode a) = 12"
    and tag: "base64_decode b = gcm_tag (hex_decode k) (base64_decode a) (base64_decode c)"
  shows "decrypt (Some k) x
           = Inr (utf8_string (gcm_crypt (hex_decode k) (base64_decode a) (base64_decode c)))"
  using k hex_decode_nonempty[OF k] iv
  by (simp add: decrypt_def Let_def s length_gcm_tag tag)

lemma decrypt_failure:
  assumes k: "length (hex_decode k) = 32" and d: "decrypt (Some k) x = Inl e"
  shows "e = MalformedEnvelope_fields
         \<or> e = MalformedEnvelope_iv (length (base64_decode (split_on CHR '':'' x ! 0)))
         \<or> e = MalformedEnvelope_tag (length (base64_decode (split_on CHR '':'' x ! 1)))
         \<or> e = DecryptionFailed"
  using d k hex_decode_nonempty[OF k]
  by (simp add: decrypt_def Let_def split: if_split_asm)

lemma unbase64_newline: "unbase64 (CHR 0x0A) = None"
  by (simp add: unbase64_def)

lemma base64_decode_newline: "base64_decode (s @ [CHR 0x0A]) = base64_decode s"
proof -
  have "List.map_filter unbase64 (takeWhile (\<lambda>c. c \<noteq> CHR ''='') (s @ [CHR 0x0A]))
      = List.map_filter unbase64 (takeWhile (\<lambda>c. c \<noteq> CHR ''='') s)"
    by (induction s) (simp_all add: List.map_filter_simps unbase64_newline split: option.split)
  then show ?thesis by (simp add: base64_decode_def)
qed

lemma split_on_nonempty: "split_on c s \<noteq> []"
  by (induction s) (auto split: list.splits)

lemma split_on_snoc:
  "x \<noteq> c \<Longrightarrow> split_on c (s @ [x]) = butlast (split_on c s) @ [last (split_on c s) @ [x]]"
proof (induction s)
  case Nil
  then show ?case by simp
next
  case (Cons a s)
  then show ?case
    using split_on_nonempty[of c s] split_on_nonempty[of c "s @ [x]"]
    by (cases "split_on c s"; cases "split_on c (s @ [x])") (auto split: if_split_asm)
qed

lemma decrypt_trailing_newline:
  assumes d: "decrypt (Some k) x = Inr t" and k: "length (hex_decode k) = 32"
  shows "decrypt (Some k) (x @ [CHR 0x0A]) = Inr t"
proof -
  from decrypt_success[OF k d] obtain a b c where
    s: "split_on CHR '':'' x = [a, b, c]" and iv: "length (base64_decode a) = 12"
    and tag: "base64_decode b = gcm_tag (hex_decode k) (base64_decode a) (base64_decode c)"
    and t: "t = utf8_string (gcm_crypt (hex_decode k) (base64_decode a) (base64_decode c))"
    by blast
  have s': "split_on CHR '':'' (x @ [CHR 0x0A]) = [a, b, c @ [CHR 0x0A]]"
    using split_on_snoc[of "CHR 0x0A" "CHR '':''" x] by (simp add: s)
  show ?thesis
    using k hex_decode_nonempty[OF k] iv
    by (simp add: decrypt_def Let_def s' base64_decode_newline t length_gcm_tag tag)
qed

lemma base64_char_not_newline: "base64_char i \<noteq> CHR 0x0A"
proof -
  have "i mod 64 < 64" by simp
  then have "of_char (base64_char i) = (if i mod 64 < 26 then 65 + i mod 64 else if i mod 64 < 52 then 71 + i mod 64
            else if i mod 64 < 62 then i mod 64 - 4 else if i mod 64 = 62 then 43 else (47::nat))"
    by (simp add: base64_char_def Let_def)
  then have "of_char (base64_char i) \<noteq> (10::nat)"
    by (auto split: if_split_asm)
  then show ?thesis by auto
qed

lemma base64_no_newline: "CHR 0x0A \<notin> set (base64_encode bs)"
  using base64_char_not_newline[symmetric]
  by (induction bs rule: base64_encode.induct) simp_all

lemma encrypt_no_newline:
  assumes "length (hex_decode k) = 32"
  shows "encrypt (Some k) rnd pos t \<noteq> Inr (x @ [CHR 0x0A])"
proof
  assume e: "encrypt (Some k) rnd pos t = Inr (x @ [CHR 0x0A])"
  let ?iv = "randomBytes rnd (pos + 16) 12"
  let ?ct = "gcm_crypt (hex_decode k) ?iv (utf8_bytes t)"
  have "CHR 0x0A \<notin> set (base64_encode ?iv @ '':'' @ base64_encode (gcm_tag (hex_decode k) ?iv ?ct)
                @ '':'' @ base64_encode ?ct)"
    by (simp add: base64_no_newline)
  moreover have "CHR 0x0A \<in> set (x @ [CHR 0x0A])" by simp
  ultimately show False
    using e unfolding encrypt_envelope[OF assms] by (metis sum.inject(2))
qed

text \<open>
  C3, as amended. With a key of 32 bytes configured, \<open>_decrypt\<close> returns a text exactly
  when its input splits at the colons into three fields, the first decodes to twelve bytes,
  and the second decodes to the tag that authenticates the bytes of the third under the
  configured key and that nonce. Every failure is one of the malformed-envelope errors
  (the number of fields, the length of the nonce, the length of the tag) or the
  decryption failure, and a text that does not split into three fields fails on the
  number of fields. Whether the input is, byte for byte, a text that \<open>_encrypt\<close>
  returned is not what is tested: base64 decoding skips the characters outside its
  alphabet.
\<close>

theorem decrypt_outcome:
  assumes "length (hex_decode k) = 32"
  shows "(\<exists>t. decrypt (Some k) x = Inr t) =
           (\<exists>a b c. split_on CHR '':'' x = [a, b, c] \<and> length (base64_decode a) = 12
              \<and> base64_decode b = gcm_tag (hex_decode k) (base64_decode a) (base64_decode c))
         \<and> (\<forall>e. decrypt (Some k) x = Inl e \<longrightarrow>
               e = MalformedEnvelope_fields
             \<or> e = MalformedEnvelope_iv (length (base64_decode (split_on CHR '':'' x ! 0)))
             \<or> e = MalformedEnvelope_tag (length (base64_decode (split_on CHR '':'' x ! 1)))
             \<or> e = DecryptionFailed)
         \<and> (length (split_on CHR '':'' x) \<noteq> 3 \<longrightarrow>
               decrypt (Some k) x = Inl MalformedEnvelope_fields)"
proof (intro conjI allI impI iffI)
  assume "\<exists>t. decrypt (Some k) x = Inr t"
  then obtain t where "decrypt (Some k) x = Inr t" ..
  from decrypt_success[OF assms this]
  show "\<exists>a b c. split_on CHR '':'' x = [a, b, c] \<and> length (base64_decode a) = 12
          \<and> base64_decode b = gcm_tag (hex_decode k) (base64_decode a) (base64_decode c)"
    by blast
next
  assume "\<exists>a b c. split_on CHR '':'' x = [a, b, c] \<and> length (base64_decode a) = 12
          \<and> base64_decode b = gcm_tag (hex_decode k) (base64_decode a) (base64_decode c)"
  then obtain a b c where "split_on CHR '':'' x = [a, b, c]" "length (base64_decode a) = 12"
    "base64_decode b = gcm_tag (hex_decode k) (base64_decode a) (base64_decode c)" by blast
  from decrypt_fields[OF assms this] show "\<exists>t. decrypt (Some k) x = Inr t" by blast
next
  fix e assume "decrypt (Some k) x = Inl e"
  from decrypt_failure[OF assms this]
  show "e = MalformedEnvelope_fields
      \<or> e = MalformedEnvelope_iv (length (base64_decode (split_on CHR '':'' x ! 0)))
      \<or> e = MalformedEnvelope_tag (length (base64_decode (split_on CHR '':'' x ! 1)))
      \<or> e = DecryptionFailed" .
next
  assume "length (split_on CHR '':'' x) \<noteq> 3"
  then show "decrypt (Some k) x = Inl MalformedEnvelope_fields"
    using hex_decode_nonempty[OF assms] by (simp add: decrypt_def Let_def)
qed

theorem decrypt_outcome_witness:
  "length (hex_decode ''000102030405060708090a0b0c0d0e0f101112131415161718191a1b1c1d1e1f'') = 32
   \<and> decrypt (Some ''000102030405060708090a0b0c0d0e0f101112131415161718191a1b1c1d1e1f'') ''{}''
       = Inl MalformedEnvelope_fields
   \<and> (\<exists>x a b c.
         decrypt (Some ''000102030405060708090a0b0c0d0e0f101112131415161718191a1b1c1d1e1f'') x
           = Inr ''{}''
       \<and> split_on CHR '':'' x = [a, b, c]
       \<and> base64_decode b
           = gcm_tag (hex_decode ''000102030405060708090a0b0c0d0e0f101112131415161718191a1b1c1d1e1f'')
               (base64_decode a) (base64_decode c))"
proof -
  let ?k = "''000102030405060708090a0b0c0d0e0f101112131415161718191a1b1c1d1e1f''"
  have h: "length (hex_decode ?k) = 32"
    by (simp add: hex_val_def)
  have s: "length (split_on CHR '':'' ''{}'') \<noteq> 3" by simp
  have 1: "decrypt (Some ?k) ''{}'' = Inl MalformedEnvelope_fields"
    using decrypt_outcome[OF h, of "''{}''"] s by blast
  obtain x where x: "decrypt (Some ?k) x = Inr ''{}''"
    using encrypt_then_decrypt[OF h, of "\<lambda>i. 0" 0 "''{}''"] by blast
  then have "\<exists>a b c. split_on CHR '':'' x = [a, b, c] \<and> length (base64_decode a) = 12
          \<and> base64_decode b = gcm_tag (hex_decode ?k) (base64_decode a) (base64_decode c)"
    using decrypt_outcome[OF h, of x] by blast
  with x 1 h show ?thesis by blast
qed

text \<open>
  C3 as stated says that \<open>_decrypt\<close> fails on every input that \<open>_encrypt\<close> did not
  produce under the same key. An envelope followed by a line feed (as an editor leaves a
  file) is no output of \<open>_encrypt\<close>, whatever the nonce and the text, and it decrypts to
  the text of the envelope.
\<close>

theorem decrypt_accepts_trailing_newline:
  "\<exists>blob. encrypt (Some ''000102030405060708090a0b0c0d0e0f101112131415161718191a1b1c1d1e1f'')
             (\<lambda>i. of_nat i) 0 ''{}'' = Inr blob
     \<and> decrypt (Some ''000102030405060708090a0b0c0d0e0f101112131415161718191a1b1c1d1e1f'')
         (blob @ [CHR 0x0A]) = Inr ''{}''
     \<and> (\<forall>rnd pos t. encrypt (Some ''000102030405060708090a0b0c0d0e0f101112131415161718191a1b1c1d1e1f'')
           rnd pos t \<noteq> Inr (blob @ [CHR 0x0A]))"
proof -
  let ?k = "''000102030405060708090a0b0c0d0e0f101112131415161718191a1b1c1d1e1f''"
  have h: "length (hex_decode ?k) = 32"
    by (simp add: hex_val_def)
  from encrypt_then_decrypt[OF h, of "\<lambda>i. of_nat i" 0 "''{}''"]
  obtain blob where b: "encrypt (Some ?k) (\<lambda>i. of_nat i) 0 ''{}'' = Inr blob"
    and d: "decrypt (Some ?k) blob = Inr ''{}''" by blast
  from decrypt_trailing_newline[OF d h] encrypt_no_newline[OF h] b show ?thesis by blast
qed


subsection \<open>The load procedure\<close>







lemma loadDb_access_fault: "access_fault d = Some e \<Longrightarrow> loadDb c d = Inr (JObj [])"
  by (simp add: loadDb_def fileExists_def split: option.split)


subsection \<open>The event loop\<close>

lemma run_quiescent: "quiescent w \<Longrightarrow> run n w = w"
  by (cases n) (simp_all add: quiescent_def step_def)


lemma all_along_run: "all_along N Q w \<Longrightarrow> Q (run m w)"
proof (induction N arbitrary: w m)
  case 0
  then show ?case by (simp add: run_quiescent)
next
  case (Suc N)
  show ?case
  proof (cases m)
    case 0
    then show ?thesis using Suc.prems by simp
  next
    case (Suc m')
    show ?thesis
    proof (cases "step w")
      case None
      then show ?thesis using Suc.prems \<open>m = Suc m'\<close> by simp
    next
      case (Some w1)
      then have "all_along N Q w1" using Suc.prems by simp
      then have "Q (run m' w1)" by (rule Suc.IH)
      then show ?thesis using Some \<open>m = Suc m'\<close> by simp
    qed
  qed
qed

lemma along: "all_along N Q (snd (issue c w)) \<Longrightarrow> Q (after n c w)"
  unfolding after_def by (rule all_along_run)

lemma never_settles:
  "all_along N (\<lambda>w'. promise_state w' (fst (issue c w)) = Pending) (snd (issue c w))
   \<Longrightarrow> outcome n c w = Pending"
  unfolding outcome_def by (rule all_along_run)

lemma never_settles_after:
  assumes "all_along M (\<lambda>w. all_along N (\<lambda>w'. promise_state w' (fst (issue c2 w)) = Pending)
             (snd (issue c2 w))) (snd (issue c1 w0))"
  shows "outcome n c2 (after m c1 w0) = Pending"
proof -
  from assms
  have "all_along N (\<lambda>w'. promise_state w' (fst (issue c2 (run m (snd (issue c1 w0))))) = Pending)
          (snd (issue c2 (run m (snd (issue c1 w0)))))"
    by (rule all_along_run)
  then show ?thesis unfolding after_def by (rule never_settles)
qed

lemmas exec0 =
  Database_set_def Database_get_def Database_delete_def Database_empty_def
  Database_getAll_def Database_list_def Database_size_def
  new_Database_def new_promise_def new_frame_def
  promise_then_def promise_catch_def subscribe_def promise_state_def settle_def step_def
  run_reaction_def getDbInstance_def writeDb_def resume_def resume_error_def return_clone_def
  throw_or_return_def set_errorToThrow_def set_result_def frame_result_def quiescent_def
  run_io_def eval_nat_numeral Let_def

lemmas exec =
  Database_set_def Database_get_def Database_delete_def Database_empty_def
  Database_getAll_def Database_list_def Database_size_def
  new_Database_def new_promise_def new_frame_def
  promise_then_def promise_catch_def subscribe_def promise_state_def settle_def step_def
  run_reaction_def getDbInstance_def writeDb_def resume_def resume_error_def return_clone_def
  throw_or_return_def set_errorToThrow_def set_result_def frame_result_def quiescent_def
  run_io_def eval_nat_numeral Let_def
  CloneFailed_def clone_def is_object_def JSON_stringify_def JSON_parse_def skip_ws_def
  is_json_ws_def

text \<open>
  A mutation on a new instance. \<open>set\<close> chains its task onto \<open>writeLock\<close> and makes
  the chained promise the new \<open>writeLock\<close>; the task calls \<open>_getDbInstance\<close>, which
  chains the load onto \<open>writeLock\<close>, that is, behind the task itself, and awaits it. The
  task waits for the load, the load for the task: after four promise jobs nothing is left to
  run, and the promise of the call is still pending. \<open>delete\<close> does the same; \<open>empty\<close>
  reaches the same cycle in \<open>_writeDb\<close>, whose \<open>operation\<close> is chained behind the
  task that awaits it.
\<close>

lemma set_new: "outcome n (Set key v) (new_Database c d rnd) = Pending"
  by (rule never_settles[where N = 4]) (simp add: exec)

lemma delete_new: "outcome n (Delete key) (new_Database c d rnd) = Pending"
  by (rule never_settles[where N = 4]) (simp add: exec)

lemma empty_new: "outcome n Empty (new_Database c d rnd) = Pending"
  by (rule never_settles[where N = 4]) (simp add: exec)

lemma set_then_getAll:
  "outcome n GetAll (after m (Set key v) (new_Database c d rnd)) = Pending"
  by (rule never_settles_after[where M = 4 and N = 6]) (simp add: exec)

lemma set_then_get:
  "outcome n (Get k) (after m (Set key v) (new_Database c d rnd)) = Pending"
  by (rule never_settles_after[where M = 4 and N = 6]) (simp add: exec)

lemma delete_then_getAll:
  "outcome n GetAll (after m (Delete key) (new_Database c d rnd)) = Pending"
  by (rule never_settles_after[where M = 4 and N = 6]) (simp add: exec)

lemma empty_then_empty:
  "outcome n Empty (after m Empty (new_Database c d rnd)) = Pending"
  by (rule never_settles_after[where M = 4 and N = 6]) (simp add: exec)

lemma delete_new_state:
  "cacheLoaded (after n (Delete key) (new_Database c d rnd)) = False
   \<and> disk (after n (Delete key) (new_Database c d rnd)) = d
   \<and> pending_io (after n (Delete key) (new_Database c d rnd)) = []"
  by (rule along[where N = 4]) (simp add: exec)

lemma empty_new_state:
  "disk (after n Empty (new_Database c d rnd)) = d
   \<and> pending_io (after n Empty (new_Database c d rnd)) = []"
  by (rule along[where N = 4]) (simp add: exec)

lemma empty_new_cache:
  "cache (after (Suc n) Empty (new_Database c d rnd)) = JObj []
   \<and> cacheLoaded (after (Suc n) Empty (new_Database c d rnd)) = True"
proof -
  have "all_along 3 (\<lambda>w. cache w = JObj [] \<and> cacheLoaded w = True)
          (run 1 (snd (issue Empty (new_Database c d rnd))))"
    by (simp add: exec)
  then have "cache (run n (run 1 (snd (issue Empty (new_Database c d rnd))))) = JObj []
     \<and> cacheLoaded (run n (run 1 (snd (issue Empty (new_Database c d rnd))))) = True"
    by (rule all_along_run)
  moreover have "step (snd (issue Empty (new_Database c d rnd))) \<noteq> None"
    by (simp add: exec)
  ultimately show ?thesis
    by (auto simp: after_def)
qed









lemma getAll_leaves_lock_free:
  assumes "loadDb cfg d = Inr doc" "clone doc = Inr copy"
  shows "lock_free (run 7 (snd (issue GetAll (new_Database cfg d rnd))))"
  using assms by (simp add: exec0 lock_free_def)



subsection \<open>A write that fails\<close>



subsection \<open>Mutations never complete\<close>

text \<open>
  C1. The claim: after any sequence of \<open>set\<close> and \<open>delete\<close> calls on a new instance,
  \<open>getAll()\<close> returns the fold of the mutations. In the source the first mutation never
  completes, whatever the key, the value and the file, and however many turns the event
  loop takes; a program that awaits it never reaches the next call. A \<open>getAll()\<close> issued
  without waiting (after any number \<open>m\<close> of turns) never returns either: its load is
  chained behind the mutation.
\<close>

theorem first_mutation_never_completes:
  "outcome n (Set key v) (new_Database c d rnd) = Pending
   \<and> outcome n (Delete key) (new_Database c d rnd) = Pending
   \<and> outcome n GetAll (after m (Set key v) (new_Database c d rnd)) = Pending
   \<and> outcome n GetAll (after m (Delete key) (new_Database c d rnd)) = Pending"
  using set_new[of n key v c d rnd] delete_new[of n key c d rnd]
    set_then_getAll[of n m key v c d rnd] delete_then_getAll[of n m key c d rnd]
  by simp

text \<open>
  C5. The claim: after \<open>set(k, v)\<close> completes, \<open>get(k)\<close> returns the value. On a new
  instance \<open>set\<close> never completes, and a \<open>get\<close> issued after it (after any number
  \<open>m\<close> of turns) never returns, for the key that was set and for any other key.
\<close>

theorem set_then_get_never_returns:
  "outcome n (Set key v) (new_Database c d rnd) = Pending
   \<and> outcome n (Get key) (after m (Set key v) (new_Database c d rnd)) = Pending
   \<and> outcome n (Get other) (after m (Set key v) (new_Database c d rnd)) = Pending"
  using set_new[of n key v c d rnd] set_then_get[of n key m key v c d rnd]
    set_then_get[of n other m key v c d rnd]
  by simp

text \<open>
  C8. The claim: \<open>delete(k)\<close> answers \<open>KeyNotFound\<close> for an absent key, after loading
  the cache and without writing, and \<open>{ ok: true }\<close> for a present key. On a new
  instance \<open>delete\<close> answers nothing, whatever the file holds: the call stays pending,
  the cache is never loaded, the file is untouched and no file operation is started.
\<close>

theorem delete_never_answers:
  "outcome n (Delete key) (new_Database c d rnd) = Pending
   \<and> cacheLoaded (after n (Delete key) (new_Database c d rnd)) = False
   \<and> disk (after n (Delete key) (new_Database c d rnd)) = d
   \<and> pending_io (after n (Delete key) (new_Database c d rnd)) = []"
  using delete_new[of n key c d rnd] delete_new_state[of n key c d rnd] by simp

text \<open>
  C9. The claim: \<open>empty()\<close> always writes through, and a second call succeeds as well.
  In the source \<open>empty()\<close> replaces the cache and then waits for a write that is chained
  behind itself: the call stays pending, the file is never written, and a second
  \<open>empty()\<close> stays pending too.
\<close>

theorem empty_never_writes:
  "outcome n Empty (new_Database c d rnd) = Pending
   \<and> disk (after n Empty (new_Database c d rnd)) = d
   \<and> pending_io (after n Empty (new_Database c d rnd)) = []
   \<and> cache (after (Suc n) Empty (new_Database c d rnd)) = JObj []
   \<and> outcome n Empty (after m Empty (new_Database c d rnd)) = Pending"
  using empty_new[of n c d rnd] empty_new_state[of n c d rnd] empty_new_cache[of n c d rnd]
    empty_then_empty[of n m c d rnd]
  by simp

text \<open>
  C10. The claim: after \<open>set(k, v)\<close> with a value that JSON serialisation omits, a
  following \<open>get(k)\<close> answers \<open>KeyNotFound\<close> and \<open>getAll()\<close> does not hold \<open>k\<close>.
  On a new instance neither call answers: \<open>set\<close> with \<open>undefined\<close> or a function is
  stuck like every other \<open>set\<close>, and the reads are chained behind it.
\<close>

theorem set_omitted_value_never_answers:
  "outcome n (Get key) (after m (Set key JUndefined) (new_Database c d rnd)) = Pending
   \<and> outcome n (Get key) (after m (Set key (JFunction f)) (new_Database c d rnd)) = Pending
   \<and> outcome n GetAll (after m (Set key JUndefined) (new_Database c d rnd)) = Pending
   \<and> outcome n GetAll (after m (Set key (JFunction f)) (new_Database c d rnd)) = Pending"
  using set_then_get[of n key m key JUndefined c d rnd]
    set_then_get[of n key m key "JFunction f" c d rnd]
    set_then_getAll[of n m key JUndefined c d rnd]
    set_then_getAll[of n m key "JFunction f" c d rnd]
  by simp

end
